theory Spec2Isabelle
  imports Complex_Main
begin

section \<open>Lennard-Jones molecular dynamics of argon: the simulation engine\<close>

text \<open>
  A shallow embedding of \<^verbatim>\<open>moleculardynamics/Ar_moleculardynamics.cpp\<close>.

  Conventions of the embedding.
  \<^item> A C++ \<^verbatim>\<open>double\<close> is a \<^typ>\<open>real\<close>: arithmetic is exact, there is no rounding, no
    infinity and no NaN. The theorems describe the C++ up to rounding, in every run in
    which no division by zero and no root of a negative number occurs. Where one occurs
    the C++ goes on with an infinity or a NaN, while HOL returns a real (\<open>x / 0 = 0\<close>);
    a statement whose truth depends on such a value has the hypothesis that excludes it.
  \<^item> A \<^verbatim>\<open>std::int32_t\<close> is an \<^typ>\<open>int\<close>. The step counter and the atom count stay far
    below \<open>2^31\<close> in every run that fits into memory and time, and their overflow is not
    modelled. The product \<^verbatim>\<open>Nc_ * Nc_ * Nc_ * 4\<close> in \<^verbatim>\<open>setNc\<close> leaves the 32 bits for an
    argument from \<open>813\<close> on; there the wrap-around is written out (\<open>int32\<close>), and the
    statements about \<open>setNc\<close> and about sized states bound the cell count.
  \<^item> A member \<^verbatim>\<open>name_\<close> of the class is the field \<open>name\<close> of the state record (an
    Isabelle name cannot end in an underscore). Constant members (\<^verbatim>\<open>ncp_\<close>, \<^verbatim>\<open>rc_\<close>,
    \<^verbatim>\<open>rc2_\<close>, \<^verbatim>\<open>Vrc_\<close>, \<^verbatim>\<open>dt2\<close>, ...) are constants of the theory.
  \<^item> A member function is a function from state to state. A \<^verbatim>\<open>for\<close> loop and a
    \<^verbatim>\<open>tbb::parallel_for\<close> over \<^verbatim>\<open>[0, NumAtom_)\<close> are a \<^const>\<open>fold\<close> of the loop body over
    the indices in increasing order; every body of a parallel loop writes only the slots
    of its own index, and the per-thread sums of \<^verbatim>\<open>tbb::combinable\<close> are added up, so over
    the reals the order of the iterations does not change the result.
\<close>

subsection \<open>Vectors and atoms\<close>

text \<open>\<^verbatim>\<open>Eigen::Vector4d\<close>: four coefficients, \<^verbatim>\<open>u[i]\<close> is the field \<open>ci\<close>.\<close>

record Vector4d =
  c0 :: real
  c1 :: real
  c2 :: real
  c3 :: real

definition Zero :: Vector4d where
  "Zero = \<lparr>c0 = 0, c1 = 0, c2 = 0, c3 = 0\<rparr>"

definition vadd :: "Vector4d \<Rightarrow> Vector4d \<Rightarrow> Vector4d" where
  "vadd a b = \<lparr>c0 = c0 a + c0 b, c1 = c1 a + c1 b, c2 = c2 a + c2 b, c3 = c3 a + c3 b\<rparr>"

definition vsub :: "Vector4d \<Rightarrow> Vector4d \<Rightarrow> Vector4d" where
  "vsub a b = \<lparr>c0 = c0 a - c0 b, c1 = c1 a - c1 b, c2 = c2 a - c2 b, c3 = c3 a - c3 b\<rparr>"

definition vscale :: "real \<Rightarrow> Vector4d \<Rightarrow> Vector4d" where
  "vscale k a = \<lparr>c0 = k * c0 a, c1 = k * c1 a, c2 = k * c2 a, c3 = k * c3 a\<rparr>"

definition vdiv :: "Vector4d \<Rightarrow> real \<Rightarrow> Vector4d" where
  "vdiv a k = \<lparr>c0 = c0 a / k, c1 = c1 a / k, c2 = c2 a / k, c3 = c3 a / k\<rparr>"

definition squaredNorm :: "Vector4d \<Rightarrow> real" where
  "squaredNorm a = c0 a * c0 a + c1 a * c1 a + c2 a * c2 a + c3 a * c3 a"

definition norm4 :: "Vector4d \<Rightarrow> real" where
  "norm4 a = sqrt (squaredNorm a)"

text \<open>\<^verbatim>\<open>struct Atom\<close>: force, position, previous position, velocity, momentum. The
  implementation keeps the current position in the arrays \<^verbatim>\<open>X_\<close>, \<^verbatim>\<open>Y_\<close>, \<^verbatim>\<open>Z_\<close> and
  never touches \<open>r\<close> and \<open>p\<close>.\<close>

record Atom =
  f :: Vector4d
  r :: Vector4d
  r1 :: Vector4d
  v :: Vector4d
  p :: Vector4d

datatype EnsembleType = NVE | NVT

subsection \<open>The simulation state\<close>

record Ar_moleculardynamics =
  Nc :: int
  atoms :: "Atom list"
  ensemble :: EnsembleType
  lat :: real
  MD_iter :: int
  NumAtom :: int
  periodiclen :: real
  scale :: real
  t :: real
  Tc :: real
  Tg :: real
  Uk :: real
  Up :: real
  Utot :: real
  virial :: real
  X :: "real list"
  Y :: "real list"
  Z :: "real list"

text \<open>The implementation keeps the positions in \<^verbatim>\<open>X_\<close>, \<^verbatim>\<open>Y_\<close> and \<^verbatim>\<open>Z_\<close>, which it sizes,
  resizes and indexes as vectors of \<^verbatim>\<open>double\<close>. The arrays are parallel and hold one slot
  for each of the \<open>NumAtom\<close> atoms:\<close>

definition parallel_arrays :: "Ar_moleculardynamics \<Rightarrow> bool" where
  "parallel_arrays st \<longleftrightarrow>
     length (X st) = nat (NumAtom st) \<and> length (Y st) = nat (NumAtom st) \<and>
     length (Z st) = nat (NumAtom st) \<and> length (atoms st) = nat (NumAtom st)"

subsection \<open>Constants\<close>

definition FIRSTNC :: int where "FIRSTNC = 4"
definition FIRSTSCALE :: real where "FIRSTSCALE = 1"
definition FIRSTTEMP :: real where "FIRSTTEMP = 50"
definition ALPHA :: real where "ALPHA = 2 / 10"
definition DT :: real where "DT = 1 / 1000"
definition KB :: real where "KB = 13806488 / 10 ^ 30"
definition YPSILON :: real where "YPSILON = 16540172624 / 10 ^ 31"
definition dt2 :: real where "dt2 = DT * DT"
definition ncp :: int where "ncp = 3"
definition rc :: real where "rc = 25 / 10"
definition rc2 :: real where "rc2 = rc * rc"
definition rcm6 :: real where "rcm6 = rc powr (- 6)"
definition rcm12 :: real where "rcm12 = rc powr (- 12)"
definition Vrc :: real where "Vrc = 4 * (rcm12 - rcm6)"

subsection \<open>Periodic wrap\<close>

text \<open>The body of the loop of \<^verbatim>\<open>periodic()\<close> for the atom \<open>n\<close>: one \<^verbatim>\<open>if / else if\<close>
  per axis, each moving the coordinate and the same coefficient of \<open>r1\<close>.\<close>

definition periodic_X :: "nat \<Rightarrow> Ar_moleculardynamics \<Rightarrow> Ar_moleculardynamics" where
  "periodic_X n st =
     (if X st ! n > periodiclen st then
        st\<lparr>X := (X st)[n := X st ! n - periodiclen st],
           atoms := (atoms st)[n := (atoms st ! n)
             \<lparr>r1 := (r1 (atoms st ! n))\<lparr>c0 := c0 (r1 (atoms st ! n)) - periodiclen st\<rparr>\<rparr>]\<rparr>
      else if X st ! n < 0 then
        st\<lparr>X := (X st)[n := X st ! n + periodiclen st],
           atoms := (atoms st)[n := (atoms st ! n)
             \<lparr>r1 := (r1 (atoms st ! n))\<lparr>c0 := c0 (r1 (atoms st ! n)) + periodiclen st\<rparr>\<rparr>]\<rparr>
      else st)"

definition periodic_Y :: "nat \<Rightarrow> Ar_moleculardynamics \<Rightarrow> Ar_moleculardynamics" where
  "periodic_Y n st =
     (if Y st ! n > periodiclen st then
        st\<lparr>Y := (Y st)[n := Y st ! n - periodiclen st],
           atoms := (atoms st)[n := (atoms st ! n)
             \<lparr>r1 := (r1 (atoms st ! n))\<lparr>c1 := c1 (r1 (atoms st ! n)) - periodiclen st\<rparr>\<rparr>]\<rparr>
      else if Y st ! n < 0 then
        st\<lparr>Y := (Y st)[n := Y st ! n + periodiclen st],
           atoms := (atoms st)[n := (atoms st ! n)
             \<lparr>r1 := (r1 (atoms st ! n))\<lparr>c1 := c1 (r1 (atoms st ! n)) + periodiclen st\<rparr>\<rparr>]\<rparr>
      else st)"

definition periodic_Z :: "nat \<Rightarrow> Ar_moleculardynamics \<Rightarrow> Ar_moleculardynamics" where
  "periodic_Z n st =
     (if Z st ! n > periodiclen st then
        st\<lparr>Z := (Z st)[n := Z st ! n - periodiclen st],
           atoms := (atoms st)[n := (atoms st ! n)
             \<lparr>r1 := (r1 (atoms st ! n))\<lparr>c2 := c2 (r1 (atoms st ! n)) - periodiclen st\<rparr>\<rparr>]\<rparr>
      else if Z st ! n < 0 then
        st\<lparr>Z := (Z st)[n := Z st ! n + periodiclen st],
           atoms := (atoms st)[n := (atoms st ! n)
             \<lparr>r1 := (r1 (atoms st ! n))\<lparr>c2 := c2 (r1 (atoms st ! n)) + periodiclen st\<rparr>\<rparr>]\<rparr>
      else st)"

definition periodic_body :: "nat \<Rightarrow> Ar_moleculardynamics \<Rightarrow> Ar_moleculardynamics" where
  "periodic_body n st = periodic_Z n (periodic_Y n (periodic_X n st))"

definition periodic :: "Ar_moleculardynamics \<Rightarrow> Ar_moleculardynamics" where
  "periodic st = fold periodic_body [0..<nat (NumAtom st)] st"

subsection \<open>Force evaluation\<close>

text \<open>The innermost block of \<^verbatim>\<open>calcForces()\<close>, for the atom \<open>n\<close>, the partner \<open>m\<close> and the
  image shift \<open>(i, j, k)\<close>. It reads the positions and the box length of the state and
  updates the force slot of \<open>n\<close> together with the running sums of the potential energy and
  of the virial (the \<^verbatim>\<open>tbb::combinable\<close> accumulators).\<close>

type_synonym accum = "Atom list \<times> real \<times> real"

definition calcForces_pair ::
  "Ar_moleculardynamics \<Rightarrow> nat \<Rightarrow> nat \<Rightarrow> int \<Rightarrow> int \<Rightarrow> int \<Rightarrow> accum \<Rightarrow> accum" where
  "calcForces_pair st n m i j k acc =
     (let sx = real_of_int i * periodiclen st;
          sy = real_of_int j * periodiclen st;
          sz = real_of_int k * periodiclen st
      in if n \<noteq> m \<or> i \<noteq> 0 \<or> j \<noteq> 0 \<or> k \<noteq> 0 then
           (let dx = X st ! n - (X st ! m + sx);
                dy = Y st ! n - (Y st ! m + sy);
                dz = Z st ! n - (Z st ! m + sz);
                r2 = dx * dx + dy * dy + dz * dz
            in if r2 \<le> rc2 then
                 (let r = sqrt r2;
                      rm6 = 1 / (r2 * r2 * r2);
                      rm7 = rm6 / r;
                      rm12 = rm6 * rm6;
                      rm13 = rm12 / r;
                      Fr = 48 * rm13 - 24 * rm7
                  in case acc of (as, up, vir) \<Rightarrow>
                       (as[n := (as ! n)\<lparr>f := vadd (f (as ! n))
                                 \<lparr>c0 = dx / r * Fr, c1 = dy / r * Fr, c2 = dz / r * Fr, c3 = 0\<rparr>\<rparr>],
                        up + 0.5 * (4 * (rm12 - rm6) - Vrc),
                        vir + 0.5 * r * Fr))
               else acc)
         else acc)"

definition calcForces :: "Ar_moleculardynamics \<Rightarrow> Ar_moleculardynamics" where
  "calcForces st =
     (let st = st\<lparr>atoms := fold (\<lambda>n as. as[n := (as ! n)\<lparr>f := Zero\<rparr>])
                             [0..<nat (NumAtom st)] (atoms st)\<rparr>;
          st = st\<lparr>Up := 0\<rparr>;
          acc = fold (\<lambda>n. fold (\<lambda>m. fold (\<lambda>i. fold (\<lambda>j. fold (\<lambda>k.
                        calcForces_pair st n m i j k)
                      [- ncp..ncp]) [- ncp..ncp]) [- ncp..ncp])
                    [0..<nat (NumAtom st)])
                  [0..<nat (NumAtom st)] (atoms st, 0, 0)
      in case acc of (as, up, vir) \<Rightarrow> st\<lparr>atoms := as, Up := up, virial := vir\<rparr>)"

subsection \<open>Integration and thermostat\<close>

text \<open>The body of the first loop of \<^verbatim>\<open>moveAtoms()\<close> (\<^verbatim>\<open>case 1\<close>, modified Euler) for the
  atom \<open>n\<close> and the scaling factor \<open>s\<close>.\<close>

definition moveAtoms_euler :: "real \<Rightarrow> nat \<Rightarrow> Ar_moleculardynamics \<Rightarrow> Ar_moleculardynamics" where
  "moveAtoms_euler s n st =
     (let st = st\<lparr>atoms := (atoms st)[n := (atoms st ! n)
                    \<lparr>r1 := \<lparr>c0 = X st ! n, c1 = Y st ! n, c2 = Z st ! n, c3 = 0\<rparr>\<rparr>]\<rparr>;
          st = st\<lparr>atoms := (atoms st)[n := (atoms st ! n)
                    \<lparr>v := vscale s (v (atoms st ! n))\<rparr>]\<rparr>;
          st = st\<lparr>X := (X st)[n := X st ! n
                    + (DT * c0 (v (atoms st ! n)) + 0.5 * c0 (f (atoms st ! n)) * dt2)]\<rparr>;
          st = st\<lparr>Y := (Y st)[n := Y st ! n
                    + (DT * c1 (v (atoms st ! n)) + 0.5 * c1 (f (atoms st ! n)) * dt2)]\<rparr>;
          st = st\<lparr>Z := (Z st)[n := Z st ! n
                    + (DT * c2 (v (atoms st ! n)) + 0.5 * c2 (f (atoms st ! n)) * dt2)]\<rparr>
      in st\<lparr>atoms := (atoms st)[n := (atoms st ! n)
                    \<lparr>v := vadd (v (atoms st ! n)) (vscale DT (f (atoms st ! n)))\<rparr>]\<rparr>)"

text \<open>The body of the second loop (\<^verbatim>\<open>default\<close>, Verlet). The enumeration has the two
  values \<open>NVE\<close> and \<open>NVT\<close>, so the asserting \<^verbatim>\<open>default\<close> branch of the inner switch has
  no counterpart.\<close>

definition moveAtoms_verlet :: "real \<Rightarrow> nat \<Rightarrow> Ar_moleculardynamics \<Rightarrow> Ar_moleculardynamics" where
  "moveAtoms_verlet s n st =
     (let rtmp = \<lparr>c0 = X st ! n, c1 = Y st ! n, c2 = Z st ! n, c3 = 0\<rparr>;
          st = (case ensemble st of
                  NVE \<Rightarrow>
                    (let st = st\<lparr>X := (X st)[n := 2 * X st ! n - c0 (r1 (atoms st ! n))
                                        + c0 (f (atoms st ! n)) * dt2]\<rparr>;
                         st = st\<lparr>Y := (Y st)[n := 2 * Y st ! n - c1 (r1 (atoms st ! n))
                                        + c1 (f (atoms st ! n)) * dt2]\<rparr>
                     in st\<lparr>Z := (Z st)[n := 2 * Z st ! n - c2 (r1 (atoms st ! n))
                                        + c2 (f (atoms st ! n)) * dt2]\<rparr>)
                | NVT \<Rightarrow>
                    (let st = st\<lparr>X := (X st)[n := X st ! n
                                        + (s * (X st ! n - c0 (r1 (atoms st ! n)))
                                           + c0 (f (atoms st ! n)) * dt2)]\<rparr>;
                         st = st\<lparr>Y := (Y st)[n := Y st ! n
                                        + (s * (Y st ! n - c1 (r1 (atoms st ! n)))
                                           + c1 (f (atoms st ! n)) * dt2)]\<rparr>
                     in st\<lparr>Z := (Z st)[n := Z st ! n
                                        + (s * (Z st ! n - c2 (r1 (atoms st ! n)))
                                           + c2 (f (atoms st ! n)) * dt2)]\<rparr>));
          st = st\<lparr>atoms := (atoms st)[n := (atoms st ! n)
                    \<lparr>v := \<lparr>c0 = 0.5 * (X st ! n - c0 (r1 (atoms st ! n))) / DT,
                           c1 = 0.5 * (Y st ! n - c1 (r1 (atoms st ! n))) / DT,
                           c2 = 0.5 * (Z st ! n - c2 (r1 (atoms st ! n))) / DT,
                           c3 = 0\<rparr>\<rparr>]\<rparr>
      in st\<lparr>atoms := (atoms st)[n := (atoms st ! n)\<lparr>r1 := rtmp\<rparr>]\<rparr>)"

text \<open>The statements of \<^verbatim>\<open>moveAtoms()\<close> before the \<^verbatim>\<open>switch\<close>: kinetic energy, total energy,
  temperature, and the local constant \<^verbatim>\<open>s\<close>, the second component of the result.\<close>

definition moveAtoms_scale :: "Ar_moleculardynamics \<Rightarrow> Ar_moleculardynamics \<times> real" where
  "moveAtoms_scale st =
     (let st = st\<lparr>Uk := 0\<rparr>;
          st = st\<lparr>Uk := fold (\<lambda>n u. u + squaredNorm (v (atoms st ! n)))
                          [0..<nat (NumAtom st)] (Uk st)\<rparr>;
          st = st\<lparr>Uk := Uk st * 0.5\<rparr>;
          st = st\<lparr>Utot := Uk st + Up st\<rparr>;
          st = st\<lparr>Tc := Uk st / (1.5 * real_of_int (NumAtom st))\<rparr>;
          s = sqrt ((Tg st + ALPHA * (Tc st - Tg st)) / Tc st)
      in (st, s))"

definition moveAtoms :: "Ar_moleculardynamics \<Rightarrow> Ar_moleculardynamics" where
  "moveAtoms st =
     (case moveAtoms_scale st of (st, s) \<Rightarrow>
        if MD_iter st = 1
        then fold (moveAtoms_euler s) [0..<nat (NumAtom st)] st
        else fold (moveAtoms_verlet s) [0..<nat (NumAtom st)] st)"

subsection \<open>One step of the simulation\<close>

definition runCalc :: "Ar_moleculardynamics \<Rightarrow> Ar_moleculardynamics" where
  "runCalc st =
     (let st = calcForces st;
          st = moveAtoms st;
          st = periodic st;
          st = st\<lparr>t := real_of_int (MD_iter st) * DT\<rparr>
      in st\<lparr>MD_iter := MD_iter st + 1\<rparr>)"

subsection \<open>Lattice and velocity initialisers\<close>

text \<open>The innermost block of the placement loops of \<^verbatim>\<open>MD_initPos()\<close>: the four atoms of
  the unit cell \<open>(i, j, k)\<close> are written at the running index \<open>n\<close>.\<close>

definition MD_initPos_cell ::
  "nat \<Rightarrow> nat \<Rightarrow> nat \<Rightarrow> Ar_moleculardynamics \<times> nat \<Rightarrow> Ar_moleculardynamics \<times> nat" where
  "MD_initPos_cell i j k stn =
     (case stn of (st, n) \<Rightarrow>
        (let sx = real i * lat st;
             sy = real j * lat st;
             sz = real k * lat st;
             st = st\<lparr>X := (X st)[n := sx]\<rparr>;
             st = st\<lparr>Y := (Y st)[n := sy]\<rparr>;
             st = st\<lparr>Z := (Z st)[n := sz]\<rparr>;
             n = n + 1;
             st = st\<lparr>X := (X st)[n := 0.5 * lat st + sx]\<rparr>;
             st = st\<lparr>Y := (Y st)[n := 0.5 * lat st + sy]\<rparr>;
             st = st\<lparr>Z := (Z st)[n := sz]\<rparr>;
             n = n + 1;
             st = st\<lparr>X := (X st)[n := sx]\<rparr>;
             st = st\<lparr>Y := (Y st)[n := 0.5 * lat st + sy]\<rparr>;
             st = st\<lparr>Z := (Z st)[n := 0.5 * lat st + sz]\<rparr>;
             n = n + 1;
             st = st\<lparr>X := (X st)[n := 0.5 * lat st + sx]\<rparr>;
             st = st\<lparr>Y := (Y st)[n := sy]\<rparr>;
             st = st\<lparr>Z := (Z st)[n := 0.5 * lat st + sz]\<rparr>;
             n = n + 1
         in (st, n)))"

text \<open>The two loops over the atoms that follow the placement: the sums of the
  coordinates, and the subtraction of the centroid.\<close>

definition MD_initPos_sum ::
  "Ar_moleculardynamics \<Rightarrow> nat \<Rightarrow> real \<times> real \<times> real \<Rightarrow> real \<times> real \<times> real" where
  "MD_initPos_sum st n acc =
     (case acc of (sx, sy, sz) \<Rightarrow> (sx + X st ! n, sy + Y st ! n, sz + Z st ! n))"

definition MD_initPos_shift ::
  "real \<Rightarrow> real \<Rightarrow> real \<Rightarrow> nat \<Rightarrow> Ar_moleculardynamics \<Rightarrow> Ar_moleculardynamics" where
  "MD_initPos_shift sx sy sz n st =
     (let st = st\<lparr>X := (X st)[n := X st ! n - sx]\<rparr>;
          st = st\<lparr>Y := (Y st)[n := Y st ! n - sy]\<rparr>
      in st\<lparr>Z := (Z st)[n := Z st ! n - sz]\<rparr>)"

text \<open>The three nested placement loops, from the running index \<open>0\<close>.\<close>

definition MD_initPos_place :: "Ar_moleculardynamics \<Rightarrow> Ar_moleculardynamics \<times> nat" where
  "MD_initPos_place st =
     fold (\<lambda>i. fold (\<lambda>j. fold (\<lambda>k. MD_initPos_cell i j k)
             [0..<nat (Nc st)]) [0..<nat (Nc st)]) [0..<nat (Nc st)] (st, 0)"

definition MD_initPos :: "Ar_moleculardynamics \<Rightarrow> Ar_moleculardynamics" where
  "MD_initPos st =
     (case MD_initPos_place st of (st, n) \<Rightarrow>
        (let st = st\<lparr>NumAtom := int n\<rparr>
         in case fold (MD_initPos_sum st) [0..<nat (NumAtom st)] (0, 0, 0)
            of (sx, sy, sz) \<Rightarrow>
              (let sx = sx / real_of_int (NumAtom st);
                   sy = sy / real_of_int (NumAtom st);
                   sz = sz / real_of_int (NumAtom st)
               in fold (MD_initPos_shift sx sy sz) [0..<nat (NumAtom st)] st)))"

text \<open>The random generator \<^verbatim>\<open>myrandom::MyRand mr(-1.0, 1.0)\<close> is created anew in every
  call of \<^verbatim>\<open>MD_initVel()\<close>; its class is not part of the sources at hand. It enters the
  model as the sequence \<open>mr\<close> of the values its calls return: the atom \<open>n\<close> consumes the
  draws \<open>3 n\<close>, \<open>3 n + 1\<close> and \<open>3 n + 2\<close> (in which order the three arguments of the
  constructor of \<^verbatim>\<open>rnd\<close> are evaluated is up to the compiler; no property below depends
  on it). Nothing is assumed about the values. The local
  variable \<^verbatim>\<open>v\<close> of the C++ is \<open>speed\<close> here (\<open>v\<close> is the velocity field of an atom).\<close>

definition MD_initVel_draw ::
  "(nat \<Rightarrow> real) \<Rightarrow> real \<Rightarrow> nat \<Rightarrow> Ar_moleculardynamics \<Rightarrow> Ar_moleculardynamics" where
  "MD_initVel_draw mr speed n st =
     (let rnd = \<lparr>c0 = mr (3 * n), c1 = mr (3 * n + 1), c2 = mr (3 * n + 2), c3 = 0\<rparr>;
          tmp = 1 / norm4 rnd;
          rnd = vscale tmp rnd
      in st\<lparr>atoms := (atoms st)[n := (atoms st ! n)\<lparr>v := vscale speed rnd\<rparr>]\<rparr>)"

definition MD_initVel_shift :: "Vector4d \<Rightarrow> nat \<Rightarrow> Ar_moleculardynamics \<Rightarrow> Ar_moleculardynamics" where
  "MD_initVel_shift s n st =
     st\<lparr>atoms := (atoms st)[n := (atoms st ! n)\<lparr>v := vsub (v (atoms st ! n)) s\<rparr>]\<rparr>"

definition MD_initVel :: "(nat \<Rightarrow> real) \<Rightarrow> Ar_moleculardynamics \<Rightarrow> Ar_moleculardynamics" where
  "MD_initVel mr st =
     (let speed = sqrt (3 * Tg st);
          st = fold (MD_initVel_draw mr speed) [0..<nat (NumAtom st)] st;
          s = \<lparr>c0 = 0, c1 = 0, c2 = 0, c3 = 0\<rparr>;
          s = fold (\<lambda>n s. vadd s (v (atoms st ! n))) [0..<nat (NumAtom st)] s;
          s = vdiv s (real_of_int (NumAtom st))
      in fold (MD_initVel_shift s) [0..<nat (NumAtom st)] st)"

subsection \<open>Reinitialisation, setters and constructor\<close>

definition recalc :: "(nat \<Rightarrow> real) \<Rightarrow> Ar_moleculardynamics \<Rightarrow> Ar_moleculardynamics" where
  "recalc mr st =
     (let st = st\<lparr>t := 0\<rparr>;
          st = st\<lparr>MD_iter := 1\<rparr>;
          st = MD_initPos st
      in MD_initVel mr st)"

definition ModLattice :: "(nat \<Rightarrow> real) \<Rightarrow> Ar_moleculardynamics \<Rightarrow> Ar_moleculardynamics" where
  "ModLattice mr st =
     (let st = st\<lparr>lat := 2 powr (2 / 3) * scale st\<rparr>;
          st = recalc mr st
      in st\<lparr>periodiclen := lat st * real_of_int (Nc st)\<rparr>)"

definition setEnsemble ::
  "(nat \<Rightarrow> real) \<Rightarrow> EnsembleType \<Rightarrow> Ar_moleculardynamics \<Rightarrow> Ar_moleculardynamics" where
  "setEnsemble mr e st = recalc mr (st\<lparr>ensemble := e\<rparr>)"

text \<open>The value of a 32-bit signed integer operation: the exact result wrapped into
  \<open>[- 2^31, 2^31)\<close>, as two's-complement hardware does (in C++ the overflow of a signed
  operation is undefined). The argument of the four \<^verbatim>\<open>resize\<close> calls of \<^verbatim>\<open>setNc\<close>,
  \<^verbatim>\<open>Nc_ * Nc_ * Nc_ * 4\<close>, is three such multiplications.\<close>

definition int32 :: "int \<Rightarrow> int" where
  "int32 x = (x + 2 ^ 31) mod 2 ^ 32 - 2 ^ 31"

text \<open>\<^verbatim>\<open>std::vector::resize\<close>: the first elements are kept, new elements are
  value-initialised. A negative \<^verbatim>\<open>int\<close> argument converts to a size above
  \<^verbatim>\<open>max_size()\<close>, and \<^verbatim>\<open>resize\<close> throws \<^verbatim>\<open>std::length_error\<close>. (Running out of memory
  is not modelled.)\<close>

datatype error = length_error

definition resize :: "int \<Rightarrow> 'a \<Rightarrow> 'a list \<Rightarrow> error + 'a list" where
  "resize n x xs =
     (if n < 0 then Inl length_error
      else Inr (take (nat n) xs @ replicate (nat n - length xs) x))"

definition Atom_init :: Atom where
  "Atom_init = \<lparr>f = Zero, r = Zero, r1 = Zero, v = Zero, p = Zero\<rparr>"

text \<open>\<^verbatim>\<open>setNc\<close>. When a \<^verbatim>\<open>resize\<close> throws, the exception leaves the function; the result
  is then the error together with the object as the call leaves it: \<^verbatim>\<open>Nc_\<close> is already
  the new count, the arrays resized so far are resized, nothing is reinitialised. For a
  count whose product wraps to a size that is not negative (\<open>1024\<close> gives \<open>0\<close>) the C++
  goes on and \<^verbatim>\<open>MD_initPos()\<close> writes behind the end of the arrays; a list update behind
  the end of a list changes nothing, so the model says nothing about the C++ there, and
  the statements about \<open>setNc\<close> are for the counts \<open>n\<close> with \<open>4 n^3 < 2^31\<close>, for negative
  ones, and for \<open>1000\<close>.\<close>

definition setNc ::
  "(nat \<Rightarrow> real) \<Rightarrow> int \<Rightarrow> Ar_moleculardynamics
     \<Rightarrow> error \<times> Ar_moleculardynamics + Ar_moleculardynamics" where
  "setNc mr n st =
     (let st = st\<lparr>Nc := n\<rparr>
      in case resize (int32 (int32 (int32 (Nc st * Nc st) * Nc st) * 4)) 0 (X st) of Inl e \<Rightarrow> Inl (e, st) | Inr xs \<Rightarrow>
         (let st = st\<lparr>X := xs\<rparr>
          in case resize (int32 (int32 (int32 (Nc st * Nc st) * Nc st) * 4)) 0 (Y st) of Inl e \<Rightarrow> Inl (e, st) | Inr ys \<Rightarrow>
         (let st = st\<lparr>Y := ys\<rparr>
          in case resize (int32 (int32 (int32 (Nc st * Nc st) * Nc st) * 4)) 0 (Z st) of Inl e \<Rightarrow> Inl (e, st) | Inr zs \<Rightarrow>
         (let st = st\<lparr>Z := zs\<rparr>
          in case resize (int32 (int32 (int32 (Nc st * Nc st) * Nc st) * 4)) Atom_init (atoms st) of Inl e \<Rightarrow> Inl (e, st)
             | Inr as \<Rightarrow> Inr (ModLattice mr (st\<lparr>atoms := as\<rparr>))))))"

definition setScale :: "(nat \<Rightarrow> real) \<Rightarrow> real \<Rightarrow> Ar_moleculardynamics \<Rightarrow> Ar_moleculardynamics" where
  "setScale mr a st = ModLattice mr (st\<lparr>scale := a\<rparr>)"

definition setTgiven :: "real \<Rightarrow> Ar_moleculardynamics \<Rightarrow> Ar_moleculardynamics" where
  "setTgiven Tgiven st = st\<lparr>Tg := Tgiven * KB / YPSILON\<rparr>"

text \<open>The constructor. \<open>raw\<close> is the storage of the object before construction: the
  members without an initialiser (\<^verbatim>\<open>Tc_\<close>, \<^verbatim>\<open>Uk_\<close>, \<^verbatim>\<open>Up_\<close>, \<^verbatim>\<open>Utot_\<close>, \<^verbatim>\<open>virial_\<close>) keep
  whatever it holds.\<close>

definition construct :: "(nat \<Rightarrow> real) \<Rightarrow> Ar_moleculardynamics \<Rightarrow> Ar_moleculardynamics" where
  "construct mr raw =
     (let st = raw\<lparr>Nc := FIRSTNC, ensemble := NVT, scale := FIRSTSCALE\<rparr>;
          st = st\<lparr>atoms := replicate (nat (Nc st * Nc st * Nc st * 4)) Atom_init,
                  Tg := FIRSTTEMP * KB / YPSILON,
                  X := replicate (nat (Nc st * Nc st * Nc st * 4)) 0,
                  Y := replicate (nat (Nc st * Nc st * Nc st * 4)) 0,
                  Z := replicate (nat (Nc st * Nc st * Nc st * 4)) 0\<rparr>;
          st = st\<lparr>lat := 2 powr (2 / 3) * scale st\<rparr>;
          st = recalc mr st
      in st\<lparr>periodiclen := lat st * real_of_int (Nc st)\<rparr>)"

subsection \<open>Auxiliary notions\<close>

text \<open>The offsets between the position and the previous position of the atom \<open>k\<close>.\<close>

definition offset :: "Ar_moleculardynamics \<Rightarrow> nat \<Rightarrow> real \<times> real \<times> real" where
  "offset st k = (X st ! k - c0 (r1 (atoms st ! k)),
                  Y st ! k - c1 (r1 (atoms st ! k)),
                  Z st ! k - c2 (r1 (atoms st ! k)))"

definition same_lengths :: "Ar_moleculardynamics \<Rightarrow> bool" where
  "same_lengths st \<longleftrightarrow> length (X st) = length (atoms st) \<and>
     length (Y st) = length (atoms st) \<and> length (Z st) = length (atoms st)"

text \<open>What one \<^verbatim>\<open>if / else if\<close> of \<^verbatim>\<open>periodic()\<close> makes of a coordinate \<open>x\<close> in a box of
  length \<open>L\<close>.\<close>

definition wrap :: "real \<Rightarrow> real \<Rightarrow> real" where
  "wrap L x = (if x > L then x - L else if x < 0 then x + L else x)"

text \<open>The sum of a list of vectors, and the unit vector made of the three draws of the
  atom \<open>n\<close>.\<close>

definition vsum :: "Vector4d list \<Rightarrow> Vector4d" where
  "vsum us = fold (\<lambda>u s. vadd s u) us Zero"

definition direction :: "(nat \<Rightarrow> real) \<Rightarrow> nat \<Rightarrow> Vector4d" where
  "direction mr n =
     (let rnd = \<lparr>c0 = mr (3 * n), c1 = mr (3 * n + 1), c2 = mr (3 * n + 2), c3 = 0\<rparr>
      in vscale (1 / norm4 rnd) rnd)"

text \<open>The fields that the placement loops of \<open>MD_initPos\<close> do not write, and the lengths
  of the arrays; the state after the placement loops, with the atom count stored; the
  mean of the first \<open>n\<close> entries of an array.\<close>

definition place_frame :: "Ar_moleculardynamics \<Rightarrow> Ar_moleculardynamics \<Rightarrow> bool" where
  "place_frame st st' \<longleftrightarrow>
     MD_iter st' = MD_iter st \<and> t st' = t st \<and> Nc st' = Nc st \<and> lat st' = lat st \<and>
     scale st' = scale st \<and> Tg st' = Tg st \<and> ensemble st' = ensemble st \<and>
     atoms st' = atoms st \<and> periodiclen st' = periodiclen st \<and>
     length (X st') = length (X st) \<and> length (Y st') = length (Y st) \<and>
     length (Z st') = length (Z st)"

definition placed :: "Ar_moleculardynamics \<Rightarrow> Ar_moleculardynamics" where
  "placed st = (fst (MD_initPos_place st))\<lparr>NumAtom := 4 * int (nat (Nc st)) ^ 3\<rparr>"

definition centroid :: "real list \<Rightarrow> nat \<Rightarrow> real" where
  "centroid xs n = (\<Sum>k\<leftarrow>[0..<n]. xs ! k) / real n"

text \<open>The velocity that the first loop of \<open>MD_initVel\<close> gives the atom \<open>n\<close>, the mean
  of these velocities, and the atoms after the first loop.\<close>

definition drawn :: "(nat \<Rightarrow> real) \<Rightarrow> Ar_moleculardynamics \<Rightarrow> nat \<Rightarrow> Vector4d" where
  "drawn mr st n = vscale (sqrt (3 * Tg st)) (direction mr n)"

definition mean_drawn :: "(nat \<Rightarrow> real) \<Rightarrow> Ar_moleculardynamics \<Rightarrow> Vector4d" where
  "mean_drawn mr st =
     vdiv (vsum (map (drawn mr st) [0..<nat (NumAtom st)])) (real_of_int (NumAtom st))"

definition drawn_atoms :: "(nat \<Rightarrow> real) \<Rightarrow> Ar_moleculardynamics \<Rightarrow> Atom list" where
  "drawn_atoms mr st =
     fold (\<lambda>n as. as[n := (as ! n)\<lparr>v := drawn mr st n\<rparr>]) [0..<nat (NumAtom st)] (atoms st)"

text \<open>The state after the four \<^verbatim>\<open>resize\<close> calls of \<^verbatim>\<open>setNc(n)\<close>, for \<open>n \<ge> 0\<close> with
  \<open>4 n^3 < 2^31\<close>.\<close>

definition resized :: "int \<Rightarrow> Ar_moleculardynamics \<Rightarrow> Ar_moleculardynamics" where
  "resized n st =
     st\<lparr>Nc := n,
        X := take (nat (n * n * n * 4)) (X st) @ replicate (nat (n * n * n * 4) - length (X st)) 0,
        Y := take (nat (n * n * n * 4)) (Y st) @ replicate (nat (n * n * n * 4) - length (Y st)) 0,
        Z := take (nat (n * n * n * 4)) (Z st) @ replicate (nat (n * n * n * 4) - length (Z st)) 0,
        atoms := take (nat (n * n * n * 4)) (atoms st)
                   @ replicate (nat (n * n * n * 4) - length (atoms st)) Atom_init\<rparr>"

text \<open>The data of the atom \<open>k\<close>: its three coordinates and its record. What the two loop
  bodies of \<open>moveAtoms\<close> make of the data of their atom.\<close>

definition particle :: "Ar_moleculardynamics \<Rightarrow> nat \<Rightarrow> real \<times> real \<times> real \<times> Atom" where
  "particle st k = (X st ! k, Y st ! k, Z st ! k, atoms st ! k)"

definition euler_particle :: "real \<Rightarrow> real \<times> real \<times> real \<times> Atom \<Rightarrow> real \<times> real \<times> real \<times> Atom" where
  "euler_particle s q =
     (case q of (x, y, z, a) \<Rightarrow>
        (x + (DT * (s * c0 (v a)) + 0.5 * c0 (f a) * dt2),
         y + (DT * (s * c1 (v a)) + 0.5 * c1 (f a) * dt2),
         z + (DT * (s * c2 (v a)) + 0.5 * c2 (f a) * dt2),
         a\<lparr>r1 := \<lparr>c0 = x, c1 = y, c2 = z, c3 = 0\<rparr>,
           v := vadd (vscale s (v a)) (vscale DT (f a))\<rparr>))"

definition verlet_coordinate :: "EnsembleType \<Rightarrow> real \<Rightarrow> real \<Rightarrow> real \<Rightarrow> real \<Rightarrow> real" where
  "verlet_coordinate e s x x1 fx =
     (case e of NVE \<Rightarrow> 2 * x - x1 + fx * dt2 | NVT \<Rightarrow> x + (s * (x - x1) + fx * dt2))"

definition verlet_particle ::
  "EnsembleType \<Rightarrow> real \<Rightarrow> real \<times> real \<times> real \<times> Atom \<Rightarrow> real \<times> real \<times> real \<times> Atom" where
  "verlet_particle e s q =
     (case q of (x, y, z, a) \<Rightarrow>
        (verlet_coordinate e s x (c0 (r1 a)) (c0 (f a)),
         verlet_coordinate e s y (c1 (r1 a)) (c1 (f a)),
         verlet_coordinate e s z (c2 (r1 a)) (c2 (f a)),
         a\<lparr>v := \<lparr>c0 = 0.5 * (verlet_coordinate e s x (c0 (r1 a)) (c0 (f a)) - c0 (r1 a)) / DT,
                 c1 = 0.5 * (verlet_coordinate e s y (c1 (r1 a)) (c1 (f a)) - c1 (r1 a)) / DT,
                 c2 = 0.5 * (verlet_coordinate e s z (c2 (r1 a)) (c2 (f a)) - c2 (r1 a)) / DT,
                 c3 = 0\<rparr>,
           r1 := \<lparr>c0 = x, c1 = y, c2 = z, c3 = 0\<rparr>\<rparr>))"

text \<open>The kinetic energy, the temperature and the scaling factor that \<open>moveAtoms\<close> computes
  from the velocities before it moves the atoms.\<close>

definition kinetic :: "Ar_moleculardynamics \<Rightarrow> real" where
  "kinetic st = (\<Sum>n\<leftarrow>[0..<nat (NumAtom st)]. squaredNorm (v (atoms st ! n))) * 0.5"

definition temperature :: "Ar_moleculardynamics \<Rightarrow> real" where
  "temperature st = kinetic st / (1.5 * real_of_int (NumAtom st))"

definition thermostat :: "Ar_moleculardynamics \<Rightarrow> real" where
  "thermostat st = sqrt ((Tg st + ALPHA * (temperature st - Tg st)) / temperature st)"

text \<open>The force evaluation in the words of its specification. The displacement of the
  atom \<open>n\<close> from the image \<open>(i, j, k)\<close> of the atom \<open>m\<close> and its squared length:\<close>

definition displacement ::
  "Ar_moleculardynamics \<Rightarrow> nat \<Rightarrow> nat \<Rightarrow> int \<Rightarrow> int \<Rightarrow> int \<Rightarrow> real \<times> real \<times> real" where
  "displacement st n m i j k =
     (X st ! n - (X st ! m + real_of_int i * periodiclen st),
      Y st ! n - (Y st ! m + real_of_int j * periodiclen st),
      Z st ! n - (Z st ! m + real_of_int k * periodiclen st))"

definition dist2 :: "Ar_moleculardynamics \<Rightarrow> nat \<Rightarrow> nat \<Rightarrow> int \<Rightarrow> int \<Rightarrow> int \<Rightarrow> real" where
  "dist2 st n m i j k =
     (case displacement st n m i j k of (dx, dy, dz) \<Rightarrow> dx * dx + dy * dy + dz * dz)"

text \<open>A pair interacts unless it is the atom with itself in the box itself, and only
  within the cutoff.\<close>

definition interacts :: "Ar_moleculardynamics \<Rightarrow> nat \<Rightarrow> nat \<Rightarrow> int \<Rightarrow> int \<Rightarrow> int \<Rightarrow> bool" where
  "interacts st n m i j k \<longleftrightarrow>
     \<not> (n = m \<and> i = 0 \<and> j = 0 \<and> k = 0) \<and> dist2 st n m i j k \<le> rc ^ 2"

text \<open>The Lennard-Jones force law \<open>Fr = 48 r^-13 - 24 r^-7\<close>, and what an interacting pair
  adds to the force on \<open>n\<close>, to the potential energy and to the virial.\<close>

definition LJ_Fr :: "real \<Rightarrow> real" where
  "LJ_Fr d = 48 / d ^ 13 - 24 / d ^ 7"

definition pair_force ::
  "Ar_moleculardynamics \<Rightarrow> nat \<Rightarrow> nat \<Rightarrow> int \<Rightarrow> int \<Rightarrow> int \<Rightarrow> Vector4d" where
  "pair_force st n m i j k =
     (if interacts st n m i j k
      then (case displacement st n m i j k of (dx, dy, dz) \<Rightarrow>
              (let r = sqrt (dist2 st n m i j k)
               in \<lparr>c0 = dx / r * LJ_Fr r, c1 = dy / r * LJ_Fr r, c2 = dz / r * LJ_Fr r, c3 = 0\<rparr>))
      else Zero)"

definition pair_energy :: "Ar_moleculardynamics \<Rightarrow> nat \<Rightarrow> nat \<Rightarrow> int \<Rightarrow> int \<Rightarrow> int \<Rightarrow> real" where
  "pair_energy st n m i j k =
     (if interacts st n m i j k
      then (let r = sqrt (dist2 st n m i j k) in 0.5 * (4 * (1 / r ^ 12 - 1 / r ^ 6) - Vrc))
      else 0)"

definition pair_virial :: "Ar_moleculardynamics \<Rightarrow> nat \<Rightarrow> nat \<Rightarrow> int \<Rightarrow> int \<Rightarrow> int \<Rightarrow> real" where
  "pair_virial st n m i j k =
     (if interacts st n m i j k
      then (let r = sqrt (dist2 st n m i j k) in 0.5 * r * LJ_Fr r)
      else 0)"

text \<open>What all partners of the atom \<open>n\<close> add: every atom \<open>m\<close> in every image box
  \<open>(i, j, k)\<close> with \<open>- ncp \<le> i, j, k \<le> ncp\<close>.\<close>

definition force_sum :: "Ar_moleculardynamics \<Rightarrow> nat \<Rightarrow> Vector4d" where
  "force_sum st n =
     vsum [pair_force st n m i j k. m \<leftarrow> [0..<nat (NumAtom st)],
             i \<leftarrow> [- ncp..ncp], j \<leftarrow> [- ncp..ncp], k \<leftarrow> [- ncp..ncp]]"

definition energy_sum :: "Ar_moleculardynamics \<Rightarrow> nat \<Rightarrow> real" where
  "energy_sum st n =
     sum_list [pair_energy st n m i j k. m \<leftarrow> [0..<nat (NumAtom st)],
                 i \<leftarrow> [- ncp..ncp], j \<leftarrow> [- ncp..ncp], k \<leftarrow> [- ncp..ncp]]"

definition virial_sum :: "Ar_moleculardynamics \<Rightarrow> nat \<Rightarrow> real" where
  "virial_sum st n =
     sum_list [pair_virial st n m i j k. m \<leftarrow> [0..<nat (NumAtom st)],
                 i \<leftarrow> [- ncp..ncp], j \<leftarrow> [- ncp..ncp], k \<leftarrow> [- ncp..ncp]]"

text \<open>Adding a force to the slot of the atom \<open>n\<close>, an energy and a virial to the sums.\<close>

definition add_contrib :: "nat \<Rightarrow> Vector4d \<Rightarrow> real \<Rightarrow> real \<Rightarrow> accum \<Rightarrow> accum" where
  "add_contrib n F U W acc =
     (case acc of (as, up, vir) \<Rightarrow>
        (as[n := (as ! n)\<lparr>f := vadd (f (as ! n)) F\<rparr>], up + U, vir + W))"

text \<open>The arrays of a state are sized for its cell count: \<open>4 Nc^3\<close> atoms, a number that
  fits into 32 bits, in parallel arrays. The constructor establishes this; \<open>runCalc\<close>,
  \<open>setEnsemble\<close>, \<open>setScale\<close> and \<open>setTgiven\<close> keep it; \<open>setNc\<close> establishes it for a count
  \<open>n \<ge> 0\<close> with \<open>4 n^3 < 2^31\<close>, and a \<^verbatim>\<open>setNc\<close> that throws leaves an object that is not
  sized.\<close>

definition sized :: "Ar_moleculardynamics \<Rightarrow> bool" where
  "sized st \<longleftrightarrow>
     0 \<le> Nc st \<and> 4 * Nc st ^ 3 < 2 ^ 31 \<and> NumAtom st = 4 * Nc st ^ 3 \<and> parallel_arrays st"

subsection \<open>Concrete states\<close>

text \<open>One FCC cell (\<open>Nc = 1\<close>, four atoms) with the lattice scale \<open>2 powr (1 / 3)\<close>, hence
  the lattice constant and the box length \<open>2\<close>, at rest, with one step done.\<close>

definition unit_cell :: Ar_moleculardynamics where
  "unit_cell =
     \<lparr>Nc = 1, atoms = replicate 4 Atom_init, ensemble = NVT, lat = 2, MD_iter = 2,
      NumAtom = 4, periodiclen = 2, scale = 2 powr (1 / 3), t = DT, Tc = 0, Tg = 1,
      Uk = 0, Up = 0, Utot = 0, virial = 0,
      X = [0, 1, 0, 1], Y = [0, 1, 1, 0], Z = [0, 0, 1, 1]\<rparr>"

text \<open>The same cell with two atoms less than a box length outside the box.\<close>

definition near_cell :: Ar_moleculardynamics where
  "near_cell = unit_cell\<lparr>X := [3, 1, - 1, 1]\<rparr>"

text \<open>The same cell with the first atom more than a box length beyond the box.\<close>

definition far_cell :: Ar_moleculardynamics where
  "far_cell = unit_cell\<lparr>X := [5, 1, 0, 1]\<rparr>"

text \<open>The cell with atoms that move: velocity \<open>(1, 1, 1)\<close>, force \<open>(2, 0, 0)\<close> and
  previous position \<open>(- 1, 0, 0)\<close>; the same cell before its first step, in the ensemble
  \<open>NVE\<close>; and the cell at rest before its first step, in the ensemble \<open>NVE\<close>.\<close>

definition moving_atom :: Atom where
  "moving_atom =
     \<lparr>f = \<lparr>c0 = 2, c1 = 0, c2 = 0, c3 = 0\<rparr>, r = Zero,
      r1 = \<lparr>c0 = - 1, c1 = 0, c2 = 0, c3 = 0\<rparr>,
      v = \<lparr>c0 = 1, c1 = 1, c2 = 1, c3 = 0\<rparr>, p = Zero\<rparr>"

definition moving_cell :: Ar_moleculardynamics where
  "moving_cell = unit_cell\<lparr>atoms := replicate 4 moving_atom\<rparr>"

definition boot_cell :: Ar_moleculardynamics where
  "boot_cell = moving_cell\<lparr>ensemble := NVE, MD_iter := 1, t := 0\<rparr>"

definition still_cell :: Ar_moleculardynamics where
  "still_cell = unit_cell\<lparr>ensemble := NVE, MD_iter := 1, t := 0\<rparr>"

text \<open>One cell with the lattice constant and the box length \<open>5 / 2\<close>, the cutoff radius: an
  atom and its own image in the next box are exactly \<open>rc\<close> apart.\<close>

definition cutoff_cell :: Ar_moleculardynamics where
  "cutoff_cell =
     unit_cell\<lparr>scale := 5 / 2 / 2 powr (2 / 3), lat := 5 / 2, periodiclen := 5 / 2,
       X := [0, 5 / 4, 0, 5 / 4], Y := [0, 5 / 4, 5 / 4, 0], Z := [0, 0, 5 / 4, 5 / 4]\<rparr>"

text \<open>A generator that returns \<open>1\<close> at every call.\<close>

definition ones :: "nat \<Rightarrow> real" where
  "ones k = 1"

section \<open>Properties\<close>

subsection \<open>Loops\<close>

lemma fold_frame:
  assumes "\<And>n s. g (h n s) = g s"
  shows "g (fold h ns s) = g s"
  using assms by (induction ns arbitrary: s) simp_all

lemma fold_fixed:
  assumes "\<And>n. n \<in> set ns \<Longrightarrow> h n s = s"
  shows "fold h ns s = s"
  using assms by (induction ns) simp_all

lemma fold_invariant:
  assumes "P s" and "\<And>n s. P s \<Longrightarrow> P (h n s)"
  shows "P (fold h ns s)"
  using assms by (induction ns arbitrary: s) simp_all

subsection \<open>Periodic wrap: frame\<close>

lemma periodic_X_frame [simp]:
  "Y (periodic_X n st) = Y st" "Z (periodic_X n st) = Z st"
  "length (X (periodic_X n st)) = length (X st)"
  "length (atoms (periodic_X n st)) = length (atoms st)"
  "periodiclen (periodic_X n st) = periodiclen st"
  "NumAtom (periodic_X n st) = NumAtom st"
  "MD_iter (periodic_X n st) = MD_iter st"
  by (simp_all add: periodic_X_def)

lemma periodic_Y_frame [simp]:
  "X (periodic_Y n st) = X st" "Z (periodic_Y n st) = Z st"
  "length (Y (periodic_Y n st)) = length (Y st)"
  "length (atoms (periodic_Y n st)) = length (atoms st)"
  "periodiclen (periodic_Y n st) = periodiclen st"
  "NumAtom (periodic_Y n st) = NumAtom st"
  "MD_iter (periodic_Y n st) = MD_iter st"
  by (simp_all add: periodic_Y_def)

lemma periodic_Z_frame [simp]:
  "X (periodic_Z n st) = X st" "Y (periodic_Z n st) = Y st"
  "length (Z (periodic_Z n st)) = length (Z st)"
  "length (atoms (periodic_Z n st)) = length (atoms st)"
  "periodiclen (periodic_Z n st) = periodiclen st"
  "NumAtom (periodic_Z n st) = NumAtom st"
  "MD_iter (periodic_Z n st) = MD_iter st"
  by (simp_all add: periodic_Z_def)

lemma periodic_body_frame [simp]:
  "length (X (periodic_body n st)) = length (X st)"
  "length (Y (periodic_body n st)) = length (Y st)"
  "length (Z (periodic_body n st)) = length (Z st)"
  "length (atoms (periodic_body n st)) = length (atoms st)"
  "periodiclen (periodic_body n st) = periodiclen st"
  "NumAtom (periodic_body n st) = NumAtom st"
  "MD_iter (periodic_body n st) = MD_iter st"
  by (simp_all add: periodic_body_def)

lemma fold_periodic_body_frame:
  "length (X (fold periodic_body ns st)) = length (X st) \<and>
   length (Y (fold periodic_body ns st)) = length (Y st) \<and>
   length (Z (fold periodic_body ns st)) = length (Z st) \<and>
   length (atoms (fold periodic_body ns st)) = length (atoms st) \<and>
   periodiclen (fold periodic_body ns st) = periodiclen st \<and>
   NumAtom (fold periodic_body ns st) = NumAtom st \<and>
   MD_iter (fold periodic_body ns st) = MD_iter st"
  by (induction ns arbitrary: st) simp_all

lemma periodic_frame [simp]:
  "length (X (periodic st)) = length (X st)"
  "length (Y (periodic st)) = length (Y st)"
  "length (Z (periodic st)) = length (Z st)"
  "length (atoms (periodic st)) = length (atoms st)"
  "periodiclen (periodic st) = periodiclen st"
  "NumAtom (periodic st) = NumAtom st"
  "MD_iter (periodic st) = MD_iter st"
  by (simp_all add: periodic_def fold_periodic_body_frame)

lemma parallel_arrays_periodic: "parallel_arrays (periodic st) = parallel_arrays st"
  by (simp add: parallel_arrays_def)

subsection \<open>Periodic wrap: the offset between position and previous position\<close>


lemma periodic_X_offset:
  assumes "length (X st) = length (atoms st)"
  shows "X (periodic_X n st) ! k - c0 (r1 (atoms (periodic_X n st) ! k))
           = X st ! k - c0 (r1 (atoms st ! k)) \<and>
         c1 (r1 (atoms (periodic_X n st) ! k)) = c1 (r1 (atoms st ! k)) \<and>
         c2 (r1 (atoms (periodic_X n st) ! k)) = c2 (r1 (atoms st ! k))"
proof (cases "n < length (atoms st)")
  case True
  with assms show ?thesis
    by (simp add: periodic_X_def nth_list_update)
next
  case False
  with assms show ?thesis
    by (simp add: periodic_X_def list_update_beyond)
qed

lemma periodic_Y_offset:
  assumes "length (Y st) = length (atoms st)"
  shows "Y (periodic_Y n st) ! k - c1 (r1 (atoms (periodic_Y n st) ! k))
           = Y st ! k - c1 (r1 (atoms st ! k)) \<and>
         c0 (r1 (atoms (periodic_Y n st) ! k)) = c0 (r1 (atoms st ! k)) \<and>
         c2 (r1 (atoms (periodic_Y n st) ! k)) = c2 (r1 (atoms st ! k))"
proof (cases "n < length (atoms st)")
  case True
  with assms show ?thesis
    by (simp add: periodic_Y_def nth_list_update)
next
  case False
  with assms show ?thesis
    by (simp add: periodic_Y_def list_update_beyond)
qed

lemma periodic_Z_offset:
  assumes "length (Z st) = length (atoms st)"
  shows "Z (periodic_Z n st) ! k - c2 (r1 (atoms (periodic_Z n st) ! k))
           = Z st ! k - c2 (r1 (atoms st ! k)) \<and>
         c0 (r1 (atoms (periodic_Z n st) ! k)) = c0 (r1 (atoms st ! k)) \<and>
         c1 (r1 (atoms (periodic_Z n st) ! k)) = c1 (r1 (atoms st ! k))"
proof (cases "n < length (atoms st)")
  case True
  with assms show ?thesis
    by (simp add: periodic_Z_def nth_list_update)
next
  case False
  with assms show ?thesis
    by (simp add: periodic_Z_def list_update_beyond)
qed


lemma periodic_body_offset:
  assumes "same_lengths st"
  shows "offset (periodic_body n st) k = offset st k"
  using assms
    periodic_X_offset [of st n k]
    periodic_Y_offset [of "periodic_X n st" n k]
    periodic_Z_offset [of "periodic_Y n (periodic_X n st)" n k]
  by (simp add: offset_def same_lengths_def periodic_body_def)

lemma same_lengths_periodic_body: "same_lengths (periodic_body n st) = same_lengths st"
  by (simp add: same_lengths_def)

lemma fold_periodic_body_offset:
  "same_lengths st \<Longrightarrow> offset (fold periodic_body ns st) k = offset st k"
  by (induction ns arbitrary: st)
     (simp_all add: periodic_body_offset same_lengths_periodic_body)

lemma parallel_arrays_same_lengths: "parallel_arrays st \<Longrightarrow> same_lengths st"
  by (simp add: parallel_arrays_def same_lengths_def)

text \<open>
  Claim C7. For every atom and every axis, \<open>periodic\<close> leaves the difference between the
  position and the previous position unchanged: a coordinate that is moved by the box
  length takes the same coefficient of \<open>r1\<close> with it.
\<close>

theorem periodic_keeps_offset:
  assumes "parallel_arrays st" and "n < nat (NumAtom st)"
  shows "X (periodic st) ! n - c0 (r1 (atoms (periodic st) ! n))
           = X st ! n - c0 (r1 (atoms st ! n)) \<and>
         Y (periodic st) ! n - c1 (r1 (atoms (periodic st) ! n))
           = Y st ! n - c1 (r1 (atoms st ! n)) \<and>
         Z (periodic st) ! n - c2 (r1 (atoms (periodic st) ! n))
           = Z st ! n - c2 (r1 (atoms st ! n))"
  using fold_periodic_body_offset [OF parallel_arrays_same_lengths [OF assms(1)],
      of "[0..<nat (NumAtom st)]" n]
  by (simp add: offset_def periodic_def)

subsection \<open>Periodic wrap: the new coordinates\<close>

lemma fold_update_length [simp]:
  "length (fold (\<lambda>n ys. ys[n := h n ys]) ns xs) = length xs"
  by (induction ns arbitrary: xs) simp_all

lemma fold_update_nth:
  assumes "k < length xs"
  shows "fold (\<lambda>n ys. ys[n := g n (ys ! n)]) [0..<N] xs ! k
           = (if k < N then g k (xs ! k) else xs ! k)"
  using assms
proof (induction N arbitrary: k)
  case 0
  show ?case by simp
next
  case (Suc N)
  show ?case
  proof (cases "k = N")
    case True
    with Suc.prems Suc.IH [of N] show ?thesis by simp
  next
    case False
    with Suc.prems Suc.IH [of k] show ?thesis by (simp add: less_Suc_eq)
  qed
qed

lemma X_periodic_body:
  "X (periodic_body n st) = (X st)[n := wrap (periodiclen st) (X st ! n)]"
  by (simp add: periodic_body_def periodic_X_def wrap_def)

lemma Y_periodic_body:
  "Y (periodic_body n st) = (Y st)[n := wrap (periodiclen st) (Y st ! n)]"
  by (simp add: periodic_body_def periodic_Y_def wrap_def)

lemma Z_periodic_body:
  "Z (periodic_body n st) = (Z st)[n := wrap (periodiclen st) (Z st ! n)]"
  by (simp add: periodic_body_def periodic_Z_def wrap_def)

lemma fold_periodic_body_XYZ:
  "X (fold periodic_body ns st)
     = fold (\<lambda>n ys. ys[n := wrap (periodiclen st) (ys ! n)]) ns (X st) \<and>
   Y (fold periodic_body ns st)
     = fold (\<lambda>n ys. ys[n := wrap (periodiclen st) (ys ! n)]) ns (Y st) \<and>
   Z (fold periodic_body ns st)
     = fold (\<lambda>n ys. ys[n := wrap (periodiclen st) (ys ! n)]) ns (Z st)"
  by (induction ns arbitrary: st)
     (simp_all add: X_periodic_body Y_periodic_body Z_periodic_body)

lemma periodic_nth:
  assumes "parallel_arrays st" and "n < nat (NumAtom st)"
  shows "X (periodic st) ! n = wrap (periodiclen st) (X st ! n)"
    and "Y (periodic st) ! n = wrap (periodiclen st) (Y st ! n)"
    and "Z (periodic st) ! n = wrap (periodiclen st) (Z st ! n)"
  using assms
  by (simp_all add: periodic_def fold_periodic_body_XYZ parallel_arrays_def
      fold_update_nth [where g = "\<lambda>n. wrap (periodiclen st)"])

lemma wrap_range:
  assumes "- L \<le> x" and "x \<le> 2 * L"
  shows "\<not> L < wrap L x" and "\<not> wrap L x < 0"
  using assms by (auto simp: wrap_def)

lemma periodic_body_fixed:
  assumes "\<not> periodiclen st < X st ! n" "\<not> X st ! n < 0"
      "\<not> periodiclen st < Y st ! n" "\<not> Y st ! n < 0"
      "\<not> periodiclen st < Z st ! n" "\<not> Z st ! n < 0"
  shows "periodic_body n st = st"
  using assms by (simp add: periodic_body_def periodic_X_def periodic_Y_def periodic_Z_def)

text \<open>
  Claim C6, amended. \<open>periodic\<close> moves a coordinate by one box length at most, so a second
  call changes nothing when every coordinate of every atom lies between \<open>- periodiclen\<close>
  and \<open>2 * periodiclen\<close>, that is, when no atom is more than one box length outside the
  box. Then \<open>periodic\<close> applied twice is \<open>periodic\<close> applied once.
\<close>

theorem periodic_twice:
  assumes "parallel_arrays st"
    and "\<forall>n<nat (NumAtom st).
           - periodiclen st \<le> X st ! n \<and> X st ! n \<le> 2 * periodiclen st \<and>
           - periodiclen st \<le> Y st ! n \<and> Y st ! n \<le> 2 * periodiclen st \<and>
           - periodiclen st \<le> Z st ! n \<and> Z st ! n \<le> 2 * periodiclen st"
  shows "periodic (periodic st) = periodic st"
proof -
  have "fold periodic_body [0..<nat (NumAtom st)] (periodic st) = periodic st"
  proof (rule fold_fixed)
    fix n assume "n \<in> set [0..<nat (NumAtom st)]"
    then have n: "n < nat (NumAtom st)" by simp
    with assms(2) have rng:
      "- periodiclen st \<le> X st ! n" "X st ! n \<le> 2 * periodiclen st"
      "- periodiclen st \<le> Y st ! n" "Y st ! n \<le> 2 * periodiclen st"
      "- periodiclen st \<le> Z st ! n" "Z st ! n \<le> 2 * periodiclen st"
      by simp_all
    show "periodic_body n (periodic st) = periodic st"
      by (rule periodic_body_fixed)
         (simp_all add: periodic_nth [OF assms(1) n] wrap_range rng)
  qed
  then show ?thesis
    by (simp add: periodic_def [of "periodic st"])
qed

lemma parallel_arrays_cells [simp]:
  "parallel_arrays unit_cell" "parallel_arrays near_cell" "parallel_arrays far_cell"
  by (simp_all add: parallel_arrays_def unit_cell_def near_cell_def far_cell_def)

lemma NumAtom_cells [simp]:
  "NumAtom unit_cell = 4" "NumAtom near_cell = 4" "NumAtom far_cell = 4"
  "periodiclen unit_cell = 2" "periodiclen near_cell = 2" "periodiclen far_cell = 2"
  by (simp_all add: unit_cell_def near_cell_def far_cell_def)

theorem periodic_keeps_offset_witness:
  "parallel_arrays near_cell \<and> (0::nat) < nat (NumAtom near_cell) \<and>
   X (periodic near_cell) ! 0 - c0 (r1 (atoms (periodic near_cell) ! 0)) = 3 \<and>
   Y (periodic near_cell) ! 0 - c1 (r1 (atoms (periodic near_cell) ! 0)) = 0 \<and>
   Z (periodic near_cell) ! 0 - c2 (r1 (atoms (periodic near_cell) ! 0)) = 0"
proof -
  have h1: "parallel_arrays near_cell" and h2: "(0::nat) < nat (NumAtom near_cell)"
    by simp_all
  have "X near_cell ! 0 - c0 (r1 (atoms near_cell ! 0)) = 3"
    "Y near_cell ! 0 - c1 (r1 (atoms near_cell ! 0)) = 0"
    "Z near_cell ! 0 - c2 (r1 (atoms near_cell ! 0)) = 0"
    by (simp_all add: near_cell_def unit_cell_def Atom_init_def Zero_def)
  with periodic_keeps_offset [OF h1 h2] h1 h2 show ?thesis
    by simp
qed

theorem periodic_twice_witness:
  "parallel_arrays near_cell \<and> X near_cell = [3, 1, - 1, 1] \<and>
   periodiclen near_cell = 2 \<and> periodic (periodic near_cell) = periodic near_cell"
proof -
  have h1: "parallel_arrays near_cell"
    by simp
  have h2: "\<forall>n<nat (NumAtom near_cell).
           - periodiclen near_cell \<le> X near_cell ! n \<and> X near_cell ! n \<le> 2 * periodiclen near_cell \<and>
           - periodiclen near_cell \<le> Y near_cell ! n \<and> Y near_cell ! n \<le> 2 * periodiclen near_cell \<and>
           - periodiclen near_cell \<le> Z near_cell ! n \<and> Z near_cell ! n \<le> 2 * periodiclen near_cell"
    by (simp add: near_cell_def unit_cell_def less_Suc_eq eval_nat_numeral nth_Cons')
  have h3: "X near_cell = [3, 1, - 1, 1]"
    by (simp add: near_cell_def)
  from periodic_twice [OF h1 h2] h1 h3 show ?thesis
    by simp
qed

text \<open>
  Claim C6 as stated (for every state) fails: an atom at \<open>x = 5\<close> in a box of length \<open>2\<close>
  is moved to \<open>3\<close> by the first call and to \<open>1\<close> by the second.
\<close>

theorem periodic_twice_counterexample:
  "X (periodic far_cell) ! 0 = 3 \<and> X (periodic (periodic far_cell)) ! 0 = 1 \<and>
   periodic (periodic far_cell) \<noteq> periodic far_cell"
proof -
  have a: "X (periodic far_cell) ! 0 = 3"
    by (simp add: periodic_nth wrap_def) (simp add: far_cell_def)
  have b: "X (periodic (periodic far_cell)) ! 0 = 1"
    by (simp add: periodic_nth parallel_arrays_periodic wrap_def) (simp add: far_cell_def)
  from a b have "X (periodic (periodic far_cell)) \<noteq> X (periodic far_cell)"
    by auto
  then have "periodic (periodic far_cell) \<noteq> periodic far_cell"
    by auto
  with a b show ?thesis by simp
qed

subsection \<open>What the step functions leave alone\<close>

lemma calcForces_frame [simp]:
  "NumAtom (calcForces st) = NumAtom st"
  "MD_iter (calcForces st) = MD_iter st"
  "X (calcForces st) = X st" "Y (calcForces st) = Y st" "Z (calcForces st) = Z st"
  "periodiclen (calcForces st) = periodiclen st"
  "ensemble (calcForces st) = ensemble st"
  "Tg (calcForces st) = Tg st"
  by (simp_all add: calcForces_def Let_def split: prod.split)

lemma moveAtoms_euler_frame [simp]:
  "NumAtom (moveAtoms_euler s n st) = NumAtom st"
  "MD_iter (moveAtoms_euler s n st) = MD_iter st"
  "periodiclen (moveAtoms_euler s n st) = periodiclen st"
  "ensemble (moveAtoms_euler s n st) = ensemble st"
  "Tc (moveAtoms_euler s n st) = Tc st"
  "Uk (moveAtoms_euler s n st) = Uk st"
  "Tg (moveAtoms_euler s n st) = Tg st"
  "length (X (moveAtoms_euler s n st)) = length (X st)"
  "length (Y (moveAtoms_euler s n st)) = length (Y st)"
  "length (Z (moveAtoms_euler s n st)) = length (Z st)"
  "length (atoms (moveAtoms_euler s n st)) = length (atoms st)"
  by (simp_all add: moveAtoms_euler_def Let_def)

lemma moveAtoms_verlet_frame [simp]:
  "NumAtom (moveAtoms_verlet s n st) = NumAtom st"
  "MD_iter (moveAtoms_verlet s n st) = MD_iter st"
  "periodiclen (moveAtoms_verlet s n st) = periodiclen st"
  "ensemble (moveAtoms_verlet s n st) = ensemble st"
  "Tc (moveAtoms_verlet s n st) = Tc st"
  "Uk (moveAtoms_verlet s n st) = Uk st"
  "Tg (moveAtoms_verlet s n st) = Tg st"
  "length (X (moveAtoms_verlet s n st)) = length (X st)"
  "length (Y (moveAtoms_verlet s n st)) = length (Y st)"
  "length (Z (moveAtoms_verlet s n st)) = length (Z st)"
  "length (atoms (moveAtoms_verlet s n st)) = length (atoms st)"
  by (simp_all add: moveAtoms_verlet_def Let_def split: EnsembleType.split)

lemma fold_moveAtoms_euler_frame:
  "NumAtom (fold (moveAtoms_euler s) ns st) = NumAtom st \<and>
   MD_iter (fold (moveAtoms_euler s) ns st) = MD_iter st \<and>
   periodiclen (fold (moveAtoms_euler s) ns st) = periodiclen st \<and>
   ensemble (fold (moveAtoms_euler s) ns st) = ensemble st \<and>
   Tc (fold (moveAtoms_euler s) ns st) = Tc st \<and>
   Uk (fold (moveAtoms_euler s) ns st) = Uk st \<and>
   Tg (fold (moveAtoms_euler s) ns st) = Tg st \<and>
   length (X (fold (moveAtoms_euler s) ns st)) = length (X st) \<and>
   length (Y (fold (moveAtoms_euler s) ns st)) = length (Y st) \<and>
   length (Z (fold (moveAtoms_euler s) ns st)) = length (Z st) \<and>
   length (atoms (fold (moveAtoms_euler s) ns st)) = length (atoms st)"
  by (induction ns arbitrary: st) simp_all

lemma fold_moveAtoms_verlet_frame:
  "NumAtom (fold (moveAtoms_verlet s) ns st) = NumAtom st \<and>
   MD_iter (fold (moveAtoms_verlet s) ns st) = MD_iter st \<and>
   periodiclen (fold (moveAtoms_verlet s) ns st) = periodiclen st \<and>
   ensemble (fold (moveAtoms_verlet s) ns st) = ensemble st \<and>
   Tc (fold (moveAtoms_verlet s) ns st) = Tc st \<and>
   Uk (fold (moveAtoms_verlet s) ns st) = Uk st \<and>
   Tg (fold (moveAtoms_verlet s) ns st) = Tg st \<and>
   length (X (fold (moveAtoms_verlet s) ns st)) = length (X st) \<and>
   length (Y (fold (moveAtoms_verlet s) ns st)) = length (Y st) \<and>
   length (Z (fold (moveAtoms_verlet s) ns st)) = length (Z st) \<and>
   length (atoms (fold (moveAtoms_verlet s) ns st)) = length (atoms st)"
  by (induction ns arbitrary: st) simp_all

lemma moveAtoms_frame [simp]:
  "NumAtom (moveAtoms st) = NumAtom st"
  "MD_iter (moveAtoms st) = MD_iter st"
  "periodiclen (moveAtoms st) = periodiclen st"
  "ensemble (moveAtoms st) = ensemble st"
  "Tg (moveAtoms st) = Tg st"
  "length (X (moveAtoms st)) = length (X st)"
  "length (Y (moveAtoms st)) = length (Y st)"
  "length (Z (moveAtoms st)) = length (Z st)"
  "length (atoms (moveAtoms st)) = length (atoms st)"
  by (simp_all add: moveAtoms_def moveAtoms_scale_def Let_def fold_moveAtoms_euler_frame
      fold_moveAtoms_verlet_frame)

lemma runCalc_MD_iter: "MD_iter (runCalc st) = MD_iter st + 1"
  by (simp add: runCalc_def Let_def)

lemma runCalc_t: "t (runCalc st) = real_of_int (MD_iter st) * DT"
  by (simp add: runCalc_def Let_def)

lemma runCalc_NumAtom: "NumAtom (runCalc st) = NumAtom st"
  by (simp add: runCalc_def Let_def)

lemma funpow_runCalc_MD_iter: "MD_iter ((runCalc ^^ k) st) = MD_iter st + int k"
  by (induction k) (simp_all add: runCalc_MD_iter)

lemma funpow_runCalc_NumAtom: "NumAtom ((runCalc ^^ k) st) = NumAtom st"
  by (induction k) (simp_all add: runCalc_NumAtom)

lemma funpow_runCalc_t: "t ((runCalc ^^ Suc k) st) = real_of_int (MD_iter st + int k) * DT"
  by (simp add: runCalc_t funpow_runCalc_MD_iter)

subsection \<open>The initialisers: counting and frame\<close>

lemma fold_snd_count:
  assumes "\<And>x q. snd (h x q) = snd q + c"
  shows "snd (fold h xs q) = snd q + c * length xs"
  using assms by (induction xs arbitrary: q) (simp_all add: algebra_simps)

lemma MD_initPos_cell_snd: "snd (MD_initPos_cell i j k q) = snd q + 4"
  by (cases q) (simp add: MD_initPos_cell_def Let_def)

lemma MD_initPos_place_snd: "snd (MD_initPos_place st) = 4 * nat (Nc st) ^ 3"
proof -
  let ?N = "nat (Nc st)"
  have 1: "snd (fold (\<lambda>k. MD_initPos_cell i j k) [0..<?N] q) = snd q + 4 * ?N" for i j q
    using fold_snd_count [of "\<lambda>k. MD_initPos_cell i j k" 4 "[0..<?N]" q]
    by (simp add: MD_initPos_cell_snd)
  have 2: "snd (fold (\<lambda>j. fold (\<lambda>k. MD_initPos_cell i j k) [0..<?N]) [0..<?N] q)
             = snd q + 4 * ?N * ?N" for i q
    using fold_snd_count [of "\<lambda>j. fold (\<lambda>k. MD_initPos_cell i j k) [0..<?N]" "4 * ?N" "[0..<?N]" q]
    by (simp add: 1)
  have 3: "snd (fold (\<lambda>i. fold (\<lambda>j. fold (\<lambda>k. MD_initPos_cell i j k) [0..<?N]) [0..<?N])
                  [0..<?N] q) = snd q + 4 * ?N * ?N * ?N" for q
    using fold_snd_count [of "\<lambda>i. fold (\<lambda>j. fold (\<lambda>k. MD_initPos_cell i j k) [0..<?N]) [0..<?N]"
        "4 * ?N * ?N" "[0..<?N]" q]
    by (simp add: 2)
  show ?thesis
    by (simp add: MD_initPos_place_def 3 power3_eq_cube)
qed


lemma place_frame_refl: "place_frame st st"
  by (simp add: place_frame_def)

lemma place_frame_trans: "place_frame a b \<Longrightarrow> place_frame b c \<Longrightarrow> place_frame a c"
  by (simp add: place_frame_def)

lemma MD_initPos_cell_frame: "place_frame (fst q) (fst (MD_initPos_cell i j k q))"
  by (cases q) (simp add: MD_initPos_cell_def Let_def place_frame_def)

lemma fold_place_frame:
  assumes "\<And>x q. place_frame (fst q) (fst (h x q))"
  shows "place_frame (fst q) (fst (fold h xs q))"
proof (induction xs arbitrary: q)
  case Nil
  show ?case by (simp add: place_frame_refl)
next
  case (Cons x xs)
  show ?case
    using place_frame_trans [OF assms [of q x] Cons.IH [of "h x q"]] by simp
qed

lemma MD_initPos_place_frame: "place_frame st (fst (MD_initPos_place st))"
proof -
  have "place_frame (fst (st, 0::nat)) (fst (MD_initPos_place st))"
    unfolding MD_initPos_place_def
    by (intro fold_place_frame MD_initPos_cell_frame)
  then show ?thesis by simp
qed

lemma fold_MD_initPos_sum:
  "fold (MD_initPos_sum st) ns (a, b, c)
     = (a + (\<Sum>k\<leftarrow>ns. X st ! k), b + (\<Sum>k\<leftarrow>ns. Y st ! k), c + (\<Sum>k\<leftarrow>ns. Z st ! k))"
  by (induction ns arbitrary: a b c) (simp_all add: MD_initPos_sum_def)

lemma fold_MD_initPos_shift:
  "fold (MD_initPos_shift sx sy sz) ns st
     = st\<lparr>X := fold (\<lambda>n ys. ys[n := ys ! n - sx]) ns (X st),
          Y := fold (\<lambda>n ys. ys[n := ys ! n - sy]) ns (Y st),
          Z := fold (\<lambda>n ys. ys[n := ys ! n - sz]) ns (Z st)\<rparr>"
  by (induction ns arbitrary: st) (simp_all add: MD_initPos_shift_def Let_def)

lemma centred_sum:
  assumes "n \<noteq> 0"
  shows "(\<Sum>k\<leftarrow>[0..<n]. g k - (\<Sum>j\<leftarrow>[0..<n]. g j) / real n) = (0::real)"
  using assms by (simp add: sum_list_subtractf sum_list_triv)

lemma sum_list_upt_cong:
  assumes "\<And>k. k < n \<Longrightarrow> g k = h k"
  shows "(\<Sum>k\<leftarrow>[0..<n]. g k) = (\<Sum>k\<leftarrow>[0..<n]. h k :: real)"
  using assms by (auto intro: arg_cong [where f = sum_list] map_cong)


lemma MD_initPos_eq:
  "MD_initPos st =
     (placed st)\<lparr>
       X := fold (\<lambda>n ys. ys[n := ys ! n - centroid (X (placed st)) (4 * nat (Nc st) ^ 3)])
              [0..<4 * nat (Nc st) ^ 3] (X (placed st)),
       Y := fold (\<lambda>n ys. ys[n := ys ! n - centroid (Y (placed st)) (4 * nat (Nc st) ^ 3)])
              [0..<4 * nat (Nc st) ^ 3] (Y (placed st)),
       Z := fold (\<lambda>n ys. ys[n := ys ! n - centroid (Z (placed st)) (4 * nat (Nc st) ^ 3)])
              [0..<4 * nat (Nc st) ^ 3] (Z (placed st))\<rparr>"
proof -
  obtain st1 n where q: "MD_initPos_place st = (st1, n)"
    by (cases "MD_initPos_place st")
  with MD_initPos_place_snd [of st] have n: "n = 4 * nat (Nc st) ^ 3"
    by simp
  have p: "placed st = st1\<lparr>NumAtom := int n\<rparr>"
    by (simp add: placed_def q n)
  show ?thesis
    unfolding MD_initPos_def q p [symmetric] prod.case Let_def
    by (simp add: fold_MD_initPos_sum fold_MD_initPos_shift centroid_def p n [symmetric])
qed

lemma placed_frame: "place_frame st (placed st)"
  using MD_initPos_place_frame [of st] by (simp add: placed_def place_frame_def)

lemma MD_initPos_frame [simp]:
  "NumAtom (MD_initPos st) = 4 * int (nat (Nc st)) ^ 3"
  "MD_iter (MD_initPos st) = MD_iter st"
  "t (MD_initPos st) = t st"
  "Nc (MD_initPos st) = Nc st"
  "lat (MD_initPos st) = lat st"
  "scale (MD_initPos st) = scale st"
  "Tg (MD_initPos st) = Tg st"
  "ensemble (MD_initPos st) = ensemble st"
  "atoms (MD_initPos st) = atoms st"
  "periodiclen (MD_initPos st) = periodiclen st"
  "length (X (MD_initPos st)) = length (X st)"
  "length (Y (MD_initPos st)) = length (Y st)"
  "length (Z (MD_initPos st)) = length (Z st)"
  using placed_frame [of st]
  by (simp_all add: MD_initPos_eq place_frame_def) (simp add: placed_def)

lemma centred_list:
  assumes "n \<le> length xs" and "n \<noteq> 0"
  shows "(\<Sum>k\<leftarrow>[0..<n]. fold (\<lambda>i ys. ys[i := ys ! i - centroid xs n]) [0..<n] xs ! k) = 0"
proof -
  have "(\<Sum>k\<leftarrow>[0..<n]. fold (\<lambda>i ys. ys[i := ys ! i - centroid xs n]) [0..<n] xs ! k)
          = (\<Sum>k\<leftarrow>[0..<n]. xs ! k - centroid xs n)"
    using assms(1)
    by (intro sum_list_upt_cong)
       (simp add: fold_update_nth [where g = "\<lambda>_ y. y - centroid xs n"])
  also have "\<dots> = 0"
    unfolding centroid_def by (rule centred_sum [OF assms(2)])
  finally show ?thesis .
qed

text \<open>
  Claim C9. After \<open>MD_initPos\<close> with \<open>Nc \<ge> 1\<close>, on arrays that hold \<open>4 Nc^3\<close> slots (every
  caller has sized them so), the atom count is \<open>4 Nc^3\<close> and the mean of the positions
  is the origin.
\<close>

theorem MD_initPos_count_centred:
  assumes "1 \<le> Nc st"
    and "length (X st) = nat (4 * Nc st ^ 3)"
    and "length (Y st) = nat (4 * Nc st ^ 3)"
    and "length (Z st) = nat (4 * Nc st ^ 3)"
  shows "NumAtom (MD_initPos st) = 4 * Nc st ^ 3 \<and>
    (\<Sum>n\<leftarrow>[0..<nat (NumAtom (MD_initPos st))]. X (MD_initPos st) ! n)
       / real_of_int (NumAtom (MD_initPos st)) = 0 \<and>
    (\<Sum>n\<leftarrow>[0..<nat (NumAtom (MD_initPos st))]. Y (MD_initPos st) ! n)
       / real_of_int (NumAtom (MD_initPos st)) = 0 \<and>
    (\<Sum>n\<leftarrow>[0..<nat (NumAtom (MD_initPos st))]. Z (MD_initPos st) ! n)
       / real_of_int (NumAtom (MD_initPos st)) = 0"
proof -
  let ?n = "4 * nat (Nc st) ^ 3"
  from assms(1) have Nc: "int (nat (Nc st)) = Nc st"
    by simp
  from assms(1) have n0: "?n \<noteq> 0"
    by simp
  from assms(1) have pos: "0 \<le> Nc st"
    by simp
  then have nn: "nat (4 * Nc st ^ 3) = ?n"
    by (simp add: nat_mult_distrib nat_power_eq)
  have len: "?n \<le> length (X (placed st))" "?n \<le> length (Y (placed st))"
    "?n \<le> length (Z (placed st))"
    using placed_frame [of st] assms(2-4) by (simp_all add: place_frame_def nn)
  have cnt: "NumAtom (MD_initPos st) = 4 * Nc st ^ 3"
    using pos by simp
  have nat_cnt: "nat (NumAtom (MD_initPos st)) = ?n"
    by (simp add: cnt nn)
  have sx: "(\<Sum>n\<leftarrow>[0..<?n]. X (MD_initPos st) ! n) = 0"
    by (simp add: MD_initPos_eq centred_list [OF len(1) n0])
  have sy: "(\<Sum>n\<leftarrow>[0..<?n]. Y (MD_initPos st) ! n) = 0"
    by (simp add: MD_initPos_eq centred_list [OF len(2) n0])
  have sz: "(\<Sum>n\<leftarrow>[0..<?n]. Z (MD_initPos st) ! n) = 0"
    by (simp add: MD_initPos_eq centred_list [OF len(3) n0])
  show ?thesis
    unfolding nat_cnt sx sy sz unfolding cnt by simp
qed

subsection \<open>Vectors\<close>

lemma vadd_Zero [simp]: "vadd a Zero = a" "vadd Zero a = a"
  by (simp_all add: vadd_def Zero_def)

lemma vadd_components [simp]:
  "c0 (vadd a b) = c0 a + c0 b" "c1 (vadd a b) = c1 a + c1 b"
  "c2 (vadd a b) = c2 a + c2 b" "c3 (vadd a b) = c3 a + c3 b"
  by (simp_all add: vadd_def)

lemma vsub_components [simp]:
  "c0 (vsub a b) = c0 a - c0 b" "c1 (vsub a b) = c1 a - c1 b"
  "c2 (vsub a b) = c2 a - c2 b" "c3 (vsub a b) = c3 a - c3 b"
  by (simp_all add: vsub_def)

lemma vscale_components [simp]:
  "c0 (vscale k a) = k * c0 a" "c1 (vscale k a) = k * c1 a"
  "c2 (vscale k a) = k * c2 a" "c3 (vscale k a) = k * c3 a"
  by (simp_all add: vscale_def)

lemma vdiv_components [simp]:
  "c0 (vdiv a k) = c0 a / k" "c1 (vdiv a k) = c1 a / k"
  "c2 (vdiv a k) = c2 a / k" "c3 (vdiv a k) = c3 a / k"
  by (simp_all add: vdiv_def)

lemma Zero_components [simp]: "c0 Zero = 0" "c1 Zero = 0" "c2 Zero = 0" "c3 Zero = 0"
  by (simp_all add: Zero_def)

lemma Vector4d_eqI:
  assumes "c0 a = c0 b" "c1 a = c1 b" "c2 a = c2 b" "c3 a = c3 b"
  shows "a = (b :: Vector4d)"
  using assms by (cases a, cases b) simp

lemma fold_vadd_components:
  "c0 (fold (\<lambda>u s. vadd s u) us a) = c0 a + (\<Sum>u\<leftarrow>us. c0 u) \<and>
   c1 (fold (\<lambda>u s. vadd s u) us a) = c1 a + (\<Sum>u\<leftarrow>us. c1 u) \<and>
   c2 (fold (\<lambda>u s. vadd s u) us a) = c2 a + (\<Sum>u\<leftarrow>us. c2 u) \<and>
   c3 (fold (\<lambda>u s. vadd s u) us a) = c3 a + (\<Sum>u\<leftarrow>us. c3 u)"
  by (induction us arbitrary: a) simp_all

lemma vsum_components [simp]:
  "c0 (vsum us) = (\<Sum>u\<leftarrow>us. c0 u)" "c1 (vsum us) = (\<Sum>u\<leftarrow>us. c1 u)"
  "c2 (vsum us) = (\<Sum>u\<leftarrow>us. c2 u)" "c3 (vsum us) = (\<Sum>u\<leftarrow>us. c3 u)"
  by (simp_all add: vsum_def fold_vadd_components)

lemma squaredNorm_nonneg [simp]: "0 \<le> squaredNorm a"
  by (simp add: squaredNorm_def)

lemma squaredNorm_vscale: "squaredNorm (vscale k a) = k * k * squaredNorm a"
  by (simp add: squaredNorm_def algebra_simps)

lemma norm4_vscale: "norm4 (vscale k a) = \<bar>k\<bar> * norm4 a"
  by (simp add: norm4_def squaredNorm_vscale real_sqrt_mult)

lemma norm4_direction:
  assumes "mr (3 * n) \<noteq> 0 \<or> mr (3 * n + 1) \<noteq> 0 \<or> mr (3 * n + 2) \<noteq> 0"
  shows "norm4 (direction mr n) = 1"
proof -
  let ?rnd = "\<lparr>c0 = mr (3 * n), c1 = mr (3 * n + 1), c2 = mr (3 * n + 2), c3 = 0\<rparr>"
  have "squaredNorm ?rnd \<noteq> 0"
    using assms by (auto simp: squaredNorm_def add_nonneg_eq_0_iff)
  then have "0 < norm4 ?rnd"
    by (simp add: norm4_def less_le)
  then show ?thesis
    by (simp add: direction_def Let_def norm4_vscale)
qed

subsection \<open>The velocity initialiser\<close>

lemma fold_MD_initVel_draw:
  "fold (MD_initVel_draw mr speed) ns st
     = st\<lparr>atoms := fold (\<lambda>n as. as[n := (as ! n)\<lparr>v := vscale speed (direction mr n)\<rparr>])
                       ns (atoms st)\<rparr>"
  by (induction ns arbitrary: st) (simp_all add: MD_initVel_draw_def direction_def Let_def)

lemma fold_MD_initVel_shift:
  "fold (MD_initVel_shift s) ns st
     = st\<lparr>atoms := fold (\<lambda>n as. as[n := (as ! n)\<lparr>v := vsub (v (as ! n)) s\<rparr>]) ns (atoms st)\<rparr>"
  by (induction ns arbitrary: st) (simp_all add: MD_initVel_shift_def)

lemma fold_vadd_map:
  "fold (\<lambda>n s. vadd s (g n)) ns a = fold (\<lambda>u s. vadd s u) (map g ns) a"
  by (simp add: fold_map comp_def)


lemma MD_initVel_frame [simp]:
  "NumAtom (MD_initVel mr st) = NumAtom st"
  "MD_iter (MD_initVel mr st) = MD_iter st"
  "t (MD_initVel mr st) = t st"
  "Nc (MD_initVel mr st) = Nc st"
  "lat (MD_initVel mr st) = lat st"
  "scale (MD_initVel mr st) = scale st"
  "Tg (MD_initVel mr st) = Tg st"
  "ensemble (MD_initVel mr st) = ensemble st"
  "periodiclen (MD_initVel mr st) = periodiclen st"
  "X (MD_initVel mr st) = X st" "Y (MD_initVel mr st) = Y st" "Z (MD_initVel mr st) = Z st"
  "length (atoms (MD_initVel mr st)) = length (atoms st)"
  by (simp_all add: MD_initVel_def Let_def fold_MD_initVel_draw fold_MD_initVel_shift)

lemma MD_initVel_eq:
  "MD_initVel mr st =
     st\<lparr>atoms := fold (\<lambda>n as. as[n := (as ! n)\<lparr>v := vsub (v (as ! n))
               (vdiv (fold (\<lambda>n s. vadd s (v (drawn_atoms mr st ! n))) [0..<nat (NumAtom st)]
                        \<lparr>c0 = 0, c1 = 0, c2 = 0, c3 = 0\<rparr>)
                  (real_of_int (NumAtom st)))\<rparr>])
             [0..<nat (NumAtom st)] (drawn_atoms mr st)\<rparr>"
  by (simp add: MD_initVel_def Let_def fold_MD_initVel_draw fold_MD_initVel_shift
      drawn_atoms_def drawn_def [abs_def])

lemma drawn_atoms_nth:
  assumes "length (atoms st) = nat (NumAtom st)" and "k < nat (NumAtom st)"
  shows "v (drawn_atoms mr st ! k) = drawn mr st k"
  using assms unfolding drawn_atoms_def
  by (simp add: fold_update_nth [where g = "\<lambda>n a. a\<lparr>v := drawn mr st n\<rparr>"])

lemma drawn_atoms_length [simp]: "length (drawn_atoms mr st) = length (atoms st)"
  by (simp add: drawn_atoms_def)

lemma drawn_atoms_mean:
  assumes "length (atoms st) = nat (NumAtom st)"
  shows "vdiv (fold (\<lambda>n s. vadd s (v (drawn_atoms mr st ! n))) [0..<nat (NumAtom st)]
                 \<lparr>c0 = 0, c1 = 0, c2 = 0, c3 = 0\<rparr>) (real_of_int (NumAtom st))
           = mean_drawn mr st"
proof -
  let ?z = "\<lparr>c0 = 0, c1 = 0, c2 = 0, c3 = 0\<rparr>"
  have "fold (\<lambda>n s. vadd s (v (drawn_atoms mr st ! n))) [0..<nat (NumAtom st)] ?z
          = fold (\<lambda>u s. vadd s u)
              (map (\<lambda>k. v (drawn_atoms mr st ! k)) [0..<nat (NumAtom st)]) ?z"
    by (rule fold_vadd_map)
  also have "map (\<lambda>k. v (drawn_atoms mr st ! k)) [0..<nat (NumAtom st)]
          = map (drawn mr st) [0..<nat (NumAtom st)]"
    by (rule map_cong) (simp_all add: drawn_atoms_nth [OF assms])
  finally show ?thesis
    by (simp only: mean_drawn_def vsum_def Zero_def)
qed

lemma MD_initVel_nth:
  assumes "length (atoms st) = nat (NumAtom st)" and "n < nat (NumAtom st)"
  shows "v (atoms (MD_initVel mr st) ! n) = vsub (drawn mr st n) (mean_drawn mr st)"
proof -
  have "v (atoms (MD_initVel mr st) ! n)
          = v (fold (\<lambda>n as. as[n := (as ! n)\<lparr>v := vsub (v (as ! n)) (mean_drawn mr st)\<rparr>])
                 [0..<nat (NumAtom st)] (drawn_atoms mr st) ! n)"
    unfolding MD_initVel_eq drawn_atoms_mean [OF assms(1)] by simp
  also have "\<dots> = vsub (v (drawn_atoms mr st ! n)) (mean_drawn mr st)"
    using assms
    by (simp add: fold_update_nth [where g = "\<lambda>n a. a\<lparr>v := vsub (v a) (mean_drawn mr st)\<rparr>"])
  finally show ?thesis
    by (simp add: drawn_atoms_nth [OF assms])
qed

lemma mean_drawn_components:
  "c0 (mean_drawn mr st)
     = (\<Sum>j\<leftarrow>[0..<nat (NumAtom st)]. c0 (drawn mr st j)) / real (nat (NumAtom st))"
  "c1 (mean_drawn mr st)
     = (\<Sum>j\<leftarrow>[0..<nat (NumAtom st)]. c1 (drawn mr st j)) / real (nat (NumAtom st))"
  "c2 (mean_drawn mr st)
     = (\<Sum>j\<leftarrow>[0..<nat (NumAtom st)]. c2 (drawn mr st j)) / real (nat (NumAtom st))"
  "c3 (mean_drawn mr st)
     = (\<Sum>j\<leftarrow>[0..<nat (NumAtom st)]. c3 (drawn mr st j)) / real (nat (NumAtom st))"
  if "0 \<le> NumAtom st"
  using that by (simp_all add: mean_drawn_def comp_def)

text \<open>
  Claim C4. After \<open>MD_initVel\<close> on a state with \<open>Nc \<ge> 1\<close> and \<open>4 Nc^3\<close> atoms, whatever
  the lattice scale, the target temperature and the draws: the velocity of every atom is
  \<open>sqrt (3 Tg)\<close> times the unit vector of its three draws, minus the mean of these
  vectors, and the sum of all velocities is the zero vector. The first vector has the
  magnitude \<open>sqrt (3 Tg)\<close> when \<open>Tg\<close> is not negative and the three draws are not all
  zero (the C++ divides by their norm).
\<close>

theorem MD_initVel_zero_momentum:
  assumes "1 \<le> Nc st" and "NumAtom st = 4 * Nc st ^ 3"
    and "length (atoms st) = nat (NumAtom st)"
  shows "vsum (map (\<lambda>n. v (atoms (MD_initVel mr st) ! n)) [0..<nat (NumAtom st)]) = Zero \<and>
    (\<forall>n<nat (NumAtom st).
       v (atoms (MD_initVel mr st) ! n)
         = vsub (vscale (sqrt (3 * Tg st)) (direction mr n))
             (vdiv (vsum (map (\<lambda>m. vscale (sqrt (3 * Tg st)) (direction mr m))
                            [0..<nat (NumAtom st)]))
                (real_of_int (NumAtom st))) \<and>
       (0 \<le> Tg st \<and> (mr (3 * n) \<noteq> 0 \<or> mr (3 * n + 1) \<noteq> 0 \<or> mr (3 * n + 2) \<noteq> 0)
          \<longrightarrow> norm4 (vscale (sqrt (3 * Tg st)) (direction mr n)) = sqrt (3 * Tg st)))"
proof -
  let ?N = "nat (NumAtom st)"
  from assms(1) have "0 < Nc st ^ 3"
    by simp
  with assms(2) have pos: "0 \<le> NumAtom st" and N0: "?N \<noteq> 0"
    by simp_all
  have nth: "v (atoms (MD_initVel mr st) ! n) = vsub (drawn mr st n) (mean_drawn mr st)"
    if "n < ?N" for n
    using MD_initVel_nth [OF assms(3) that] .
  have eq: "map (\<lambda>n. v (atoms (MD_initVel mr st) ! n)) [0..<?N]
              = map (\<lambda>n. vsub (drawn mr st n) (mean_drawn mr st)) [0..<?N]"
    by (rule map_cong) (simp_all add: nth)
  have "vsum (map (\<lambda>n. vsub (drawn mr st n) (mean_drawn mr st)) [0..<?N]) = Zero"
    by (rule Vector4d_eqI)
       (simp_all add: comp_def mean_drawn_components [OF pos] centred_sum [OF N0])
  then have sum0: "vsum (map (\<lambda>n. v (atoms (MD_initVel mr st) ! n)) [0..<?N]) = Zero"
    unfolding eq .
  have mag: "norm4 (vscale (sqrt (3 * Tg st)) (direction mr n)) = sqrt (3 * Tg st)"
    if "0 \<le> Tg st" "mr (3 * n) \<noteq> 0 \<or> mr (3 * n + 1) \<noteq> 0 \<or> mr (3 * n + 2) \<noteq> 0" for n
    using that by (simp add: norm4_vscale norm4_direction)
  have shape: "v (atoms (MD_initVel mr st) ! n)
         = vsub (vscale (sqrt (3 * Tg st)) (direction mr n))
             (vdiv (vsum (map (\<lambda>m. vscale (sqrt (3 * Tg st)) (direction mr m)) [0..<?N]))
                (real_of_int (NumAtom st)))" if "n < ?N" for n
    using nth [OF that] unfolding mean_drawn_def drawn_def [abs_def] .
  from sum0 shape mag show ?thesis
    by blast
qed

subsection \<open>Reinitialisation, setters and constructor\<close>

lemma recalc_eq: "recalc mr st = MD_initVel mr (MD_initPos (st\<lparr>t := 0, MD_iter := 1\<rparr>))"
  by (simp add: recalc_def Let_def)

lemma recalc_frame [simp]:
  "MD_iter (recalc mr st) = 1"
  "t (recalc mr st) = 0"
  "NumAtom (recalc mr st) = 4 * int (nat (Nc st)) ^ 3"
  "Nc (recalc mr st) = Nc st"
  "lat (recalc mr st) = lat st"
  "scale (recalc mr st) = scale st"
  "Tg (recalc mr st) = Tg st"
  "ensemble (recalc mr st) = ensemble st"
  "periodiclen (recalc mr st) = periodiclen st"
  "length (X (recalc mr st)) = length (X st)"
  "length (Y (recalc mr st)) = length (Y st)"
  "length (Z (recalc mr st)) = length (Z st)"
  "length (atoms (recalc mr st)) = length (atoms st)"
  by (simp_all add: recalc_eq)

lemma ModLattice_eq:
  "ModLattice mr st =
     (recalc mr (st\<lparr>lat := 2 powr (2 / 3) * scale st\<rparr>))
       \<lparr>periodiclen := 2 powr (2 / 3) * scale st * real_of_int (Nc st)\<rparr>"
  by (simp add: ModLattice_def Let_def)

lemma resized_frame [simp]:
  "Nc (resized n st) = n"
  "scale (resized n st) = scale st"
  "length (X (resized n st)) = nat (n * n * n * 4)"
  "length (Y (resized n st)) = nat (n * n * n * 4)"
  "length (Z (resized n st)) = nat (n * n * n * 4)"
  "length (atoms (resized n st)) = nat (n * n * n * 4)"
  by (simp_all add: resized_def)

lemma int32_id:
  assumes "- (2 ^ 31) \<le> x" and "x < 2 ^ 31"
  shows "int32 x = x"
  using assms by (simp add: int32_def)

lemma cube_in_range:
  assumes "0 \<le> n" and "4 * n ^ 3 < 2 ^ 31"
  shows "int32 (int32 (int32 (n * n) * n) * 4) = n * n * n * 4"
    and "0 \<le> n * n * n * 4"
proof -
  have c: "n * n * n * 4 = 4 * n ^ 3"
    by (simp add: power3_eq_cube)
  have 0: "0 \<le> n * n"
    by simp
  then have 00: "0 \<le> n * n * n"
    using assms(1) by (rule mult_nonneg_nonneg)
  then show nn: "0 \<le> n * n * n * 4"
    by linarith
  have 1: "n * n \<le> n * n * n"
  proof (cases "n = 0")
    case True
    then show ?thesis by simp
  next
    case False
    with assms(1) have "1 \<le> n" by simp
    with 0 have "n * n * 1 \<le> n * n * n"
      by (rule mult_left_mono [rotated])
    then show ?thesis by simp
  qed
  have 3: "n * n * n * 4 < 2 ^ 31"
    using assms(2) by (simp only: c)
  have a: "int32 (n * n) = n * n"
    using 0 00 1 3 by (intro int32_id; linarith)
  have b: "int32 (n * n * n) = n * n * n"
    using 00 3 by (intro int32_id; linarith)
  have d: "int32 (n * n * n * 4) = n * n * n * 4"
    using 00 3 by (intro int32_id; linarith)
  show "int32 (int32 (int32 (n * n) * n) * 4) = n * n * n * 4"
    by (simp only: a b d)
qed

lemma setNc_eq:
  assumes "0 \<le> n" and "4 * n ^ 3 < 2 ^ 31"
  shows "setNc mr n st = Inr (ModLattice mr (resized n st))"
proof -
  from cube_in_range(2) [OF assms] have "\<not> n * n * n * 4 < 0"
    by simp
  then show ?thesis
    by (simp add: setNc_def resize_def resized_def Let_def cube_in_range(1) [OF assms])
qed

text \<open>\<open>1000^3 * 4\<close> is negative in 32 bits: \<^verbatim>\<open>setNc(1000)\<close> throws at the first \<^verbatim>\<open>resize\<close> and
  leaves the object with the new cell count and the old arrays, which is not sized. So
  does every negative count whose product stays in 32 bits.\<close>

lemma setNc_1000: "setNc mr 1000 st = Inl (length_error, st\<lparr>Nc := 1000\<rparr>)"
  by (simp add: setNc_def resize_def Let_def int32_def)

lemma setNc_1000_unsized: "\<not> sized (st\<lparr>Nc := 1000\<rparr>)"
  by (simp add: sized_def)

lemma setNc_negative:
  assumes "n < 0" and "- (2 ^ 31) \<le> 4 * n ^ 3"
  shows "setNc mr n st = Inl (length_error, st\<lparr>Nc := n\<rparr>)"
proof -
  have c: "n * n * n * 4 = 4 * n ^ 3"
    by (simp add: power3_eq_cube)
  have 0: "0 < n * n"
    using assms(1) by (simp add: mult_neg_neg)
  then have neg: "n * n * n < 0"
    using assms(1) by (simp add: mult_pos_neg)
  have low: "- (2 ^ 31) \<le> n * n * n * 4"
    using assms(2) by (simp only: c)
  from assms(1) have "n \<le> - 1"
    by simp
  with 0 have "n * n * n \<le> n * n * (- 1)"
    by (intro mult_left_mono) simp_all
  then have sq: "n * n \<le> - (n * n * n)"
    by simp
  have a: "int32 (n * n) = n * n"
    using 0 sq neg low by (intro int32_id; linarith)
  have b: "int32 (n * n * n) = n * n * n"
    using neg low by (intro int32_id; linarith)
  have d: "int32 (n * n * n * 4) = n * n * n * 4"
    using neg low by (intro int32_id; linarith)
  have "n * n * n * 4 < 0"
    using neg by linarith
  then have "int32 (int32 (int32 (n * n) * n) * 4) < 0"
    by (simp only: a b d)
  then show ?thesis
    by (simp add: setNc_def resize_def Let_def)
qed

lemma sized_recalc:
  assumes "sized st"
  shows "sized (recalc mr st)"
proof -
  from assms have "0 \<le> Nc st"
    by (simp add: sized_def)
  then have "4 * int (nat (Nc st)) ^ 3 = 4 * Nc st ^ 3"
    by simp
  with assms show ?thesis
    by (simp add: sized_def parallel_arrays_def)
qed

lemma construct_frame [simp]:
  "MD_iter (construct mr raw) = 1"
  "t (construct mr raw) = 0"
  "NumAtom (construct mr raw) = 256"
  "Nc (construct mr raw) = 4"
  "ensemble (construct mr raw) = NVT"
  "parallel_arrays (construct mr raw)"
  "scale (construct mr raw) = 1"
  "Tg (construct mr raw) = 50 * KB / YPSILON"
  by (simp_all add: construct_def Let_def FIRSTNC_def FIRSTSCALE_def FIRSTTEMP_def
      parallel_arrays_def)

lemma ten_steps: "10 * DT = 1 / 100"
  by (simp add: DT_def)

subsection \<open>The step counter and the elapsed time\<close>

text \<open>
  Claim C5, amended. \<open>MD_iter\<close> starts at \<open>1\<close> and every \<open>runCalc\<close> adds exactly \<open>1\<close> to
  it; \<open>runCalc\<close> sets \<open>t\<close> to \<open>DT\<close> times the value that \<open>MD_iter\<close> had when the step began,
  so after every step \<open>t = (MD_iter - 1) * DT\<close>, and after \<open>k\<close> steps from the construction
  \<open>t = k * DT\<close>. From the default construction (\<open>Nc = 4\<close>, \<open>NVT\<close>): \<open>MD_iter = 2\<close> after the
  first step; after ten steps \<open>t = 10 * DT = 0.01\<close> and \<open>NumAtom = 256\<close>.
\<close>

theorem runCalc_counters:
  "Nc (construct mr raw) = 4 \<and> scale (construct mr raw) = 1 \<and>
   Tg (construct mr raw) = 50 * KB / YPSILON \<and> ensemble (construct mr raw) = NVT \<and>
   MD_iter (construct mr raw) = 1 \<and> t (construct mr raw) = 0 \<and>
   MD_iter (runCalc st) = MD_iter st + 1 \<and>
   t (runCalc st) = real_of_int (MD_iter st) * DT \<and>
   t (runCalc st) = real_of_int (MD_iter (runCalc st) - 1) * DT \<and>
   MD_iter ((runCalc ^^ k) (construct mr raw)) = 1 + int k \<and>
   t ((runCalc ^^ k) (construct mr raw)) = real k * DT \<and>
   MD_iter (runCalc (construct mr raw)) = 2 \<and>
   t ((runCalc ^^ 10) (construct mr raw)) = 10 * DT \<and> 10 * DT = 1 / 100 \<and>
   NumAtom ((runCalc ^^ 10) (construct mr raw)) = 256"
proof -
  have tk: "t ((runCalc ^^ k) (construct mr raw)) = real k * DT" for k
  proof (cases k)
    case 0
    then show ?thesis by simp
  next
    case (Suc j)
    then show ?thesis
      by (simp only: funpow_runCalc_t construct_frame) (simp add: algebra_simps)
  qed
  have "t ((runCalc ^^ 10) (construct mr raw)) = 10 * DT"
    using tk [of 10] by simp
  then show ?thesis
    by (simp add: runCalc_MD_iter runCalc_t funpow_runCalc_MD_iter funpow_runCalc_NumAtom
        tk ten_steps)
qed

theorem runCalc_counters_witness:
  "MD_iter (runCalc (construct ones unit_cell)) = 2 \<and>
   t (runCalc (construct ones unit_cell)) = DT \<and>
   t ((runCalc ^^ 10) (construct ones unit_cell)) = 1 / 100 \<and>
   NumAtom ((runCalc ^^ 10) (construct ones unit_cell)) = 256"
  using runCalc_counters [of ones unit_cell "construct ones unit_cell" 10]
  by simp

text \<open>
  Claim C5 as stated (\<open>t = MD_iter * DT\<close> is maintained) fails: after the first step of
  the default construction \<open>MD_iter = 2\<close> and \<open>t = DT\<close>, not \<open>2 * DT\<close>.
\<close>

theorem runCalc_counters_counterexample:
  "MD_iter (runCalc (construct ones unit_cell)) = 2 \<and>
   t (runCalc (construct ones unit_cell)) = DT \<and>
   t (runCalc (construct ones unit_cell))
     \<noteq> real_of_int (MD_iter (runCalc (construct ones unit_cell))) * DT"
  by (simp add: runCalc_MD_iter runCalc_t DT_def)

subsection \<open>The setters\<close>

text \<open>
  Claim C8. On a sized object \<open>setEnsemble\<close> and \<open>setScale\<close> end in \<open>recalc\<close>: they set
  \<open>t = 0\<close> and \<open>MD_iter = 1\<close>, run \<open>MD_initPos\<close> and \<open>MD_initVel\<close> again, and the object stays
  sized. So does \<open>setNc n\<close> on any object, for a cell count \<open>n \<ge> 0\<close> whose \<open>4 n^3\<close> atoms fit
  into 32 bits (\<open>n \<le> 812\<close>): it returns, after the four arrays are resized to \<open>4 n^3\<close>.
  \<open>setTgiven\<close> changes the field \<open>Tg\<close> and nothing else: positions, velocities, \<open>MD_iter\<close>
  and \<open>t\<close> stay. After \<open>setNc 3\<close> there are \<open>108\<close> atoms and \<open>MD_iter = 1\<close>.
\<close>

theorem setters_reinitialise:
  assumes "0 \<le> n" and "4 * n ^ 3 < 2 ^ 31"
  shows
   "(sized st \<longrightarrow>
       setEnsemble mr e st
         = MD_initVel mr (MD_initPos (st\<lparr>ensemble := e, t := 0, MD_iter := 1\<rparr>)) \<and>
       MD_iter (setEnsemble mr e st) = 1 \<and> t (setEnsemble mr e st) = 0 \<and>
       ensemble (setEnsemble mr e st) = e \<and> sized (setEnsemble mr e st) \<and>
       setScale mr a st
         = (MD_initVel mr (MD_initPos
              (st\<lparr>scale := a, lat := 2 powr (2 / 3) * a, t := 0, MD_iter := 1\<rparr>)))
             \<lparr>periodiclen := 2 powr (2 / 3) * a * real_of_int (Nc st)\<rparr> \<and>
       MD_iter (setScale mr a st) = 1 \<and> t (setScale mr a st) = 0 \<and>
       scale (setScale mr a st) = a \<and> sized (setScale mr a st)) \<and>
    setNc mr n st = Inr
      ((MD_initVel mr (MD_initPos
          ((resized n st)\<lparr>lat := 2 powr (2 / 3) * scale st, t := 0, MD_iter := 1\<rparr>)))
        \<lparr>periodiclen := 2 powr (2 / 3) * scale st * real_of_int n\<rparr>) \<and>
    (\<exists>st'. setNc mr n st = Inr st' \<and> MD_iter st' = 1 \<and> t st' = 0 \<and>
           Nc st' = n \<and> NumAtom st' = 4 * n ^ 3 \<and> sized st') \<and>
    (setTgiven Tgiven st)\<lparr>Tg := Tg st\<rparr> = st \<and>
    Tg (setTgiven Tgiven st) = Tgiven * KB / YPSILON \<and>
    X (setTgiven Tgiven st) = X st \<and> Y (setTgiven Tgiven st) = Y st \<and>
    Z (setTgiven Tgiven st) = Z st \<and> atoms (setTgiven Tgiven st) = atoms st \<and>
    MD_iter (setTgiven Tgiven st) = MD_iter st \<and> t (setTgiven Tgiven st) = t st \<and>
    (\<exists>st'. setNc mr 3 st = Inr st' \<and> NumAtom st' = 108 \<and> MD_iter st' = 1)"
proof -
  have len: "nat (n * n * n * 4) = nat (4 * int (nat n) ^ 3)"
    using assms(1) by (simp add: power3_eq_cube algebra_simps)
  have n3: "4 * int (nat n) ^ 3 = 4 * n ^ 3"
    using assms(1) by simp
  have a: "setNc mr n st = Inr
      ((MD_initVel mr (MD_initPos
          ((resized n st)\<lparr>lat := 2 powr (2 / 3) * scale st, t := 0, MD_iter := 1\<rparr>)))
        \<lparr>periodiclen := 2 powr (2 / 3) * scale st * real_of_int n\<rparr>)"
    by (simp add: setNc_eq [OF assms] ModLattice_eq recalc_eq)
  have b: "\<exists>st'. setNc mr n st = Inr st' \<and> MD_iter st' = 1 \<and> t st' = 0 \<and>
           Nc st' = n \<and> NumAtom st' = 4 * n ^ 3 \<and> sized st'"
    unfolding a using assms len n3
    by (simp add: sized_def parallel_arrays_def)
  have c: "\<exists>st'. setNc mr 3 st = Inr st' \<and> NumAtom st' = 108 \<and> MD_iter st' = 1"
    by (simp add: setNc_eq ModLattice_eq)
  have d: "(setTgiven Tgiven st)\<lparr>Tg := Tg st\<rparr> = st"
    by (simp add: setTgiven_def)
  have e: "sized (setEnsemble mr e st)" "sized (setScale mr a st)" if "sized st"
  proof -
    from that have "sized (st\<lparr>ensemble := e\<rparr>)"
      "sized (st\<lparr>scale := a, lat := 2 powr (2 / 3) * a\<rparr>)"
      by (simp_all add: sized_def parallel_arrays_def)
    then have "sized (recalc mr (st\<lparr>ensemble := e\<rparr>))"
      "sized (recalc mr (st\<lparr>scale := a, lat := 2 powr (2 / 3) * a\<rparr>))"
      by (simp_all only: sized_recalc)
    then show "sized (setEnsemble mr e st)" "sized (setScale mr a st)"
      by (simp_all add: setEnsemble_def setScale_def ModLattice_eq sized_def
          parallel_arrays_def)
  qed
  have f: "setEnsemble mr e st
         = MD_initVel mr (MD_initPos (st\<lparr>ensemble := e, t := 0, MD_iter := 1\<rparr>))"
    "setScale mr a st
         = (MD_initVel mr (MD_initPos
              (st\<lparr>scale := a, lat := 2 powr (2 / 3) * a, t := 0, MD_iter := 1\<rparr>)))
             \<lparr>periodiclen := 2 powr (2 / 3) * a * real_of_int (Nc st)\<rparr>"
    by (simp_all add: setEnsemble_def setScale_def ModLattice_eq recalc_eq)
  have g: "MD_iter (setEnsemble mr e st) = 1" "t (setEnsemble mr e st) = 0"
    "ensemble (setEnsemble mr e st) = e"
    "MD_iter (setScale mr a st) = 1" "t (setScale mr a st) = 0"
    "scale (setScale mr a st) = a"
    by (simp_all add: setEnsemble_def setScale_def ModLattice_eq)
  have h: "Tg (setTgiven Tgiven st) = Tgiven * KB / YPSILON"
    "X (setTgiven Tgiven st) = X st" "Y (setTgiven Tgiven st) = Y st"
    "Z (setTgiven Tgiven st) = Z st" "atoms (setTgiven Tgiven st) = atoms st"
    "MD_iter (setTgiven Tgiven st) = MD_iter st" "t (setTgiven Tgiven st) = t st"
    by (simp_all add: setTgiven_def)
  from a b c d e f g h show ?thesis
    by blast
qed

lemma unit_cell_fields [simp]:
  "Nc unit_cell = 1" "length (X unit_cell) = 4" "length (Y unit_cell) = 4"
  "length (Z unit_cell) = 4" "length (atoms unit_cell) = 4" "Tg unit_cell = 1"
  "MD_iter unit_cell = 2"
  by (simp_all add: unit_cell_def)

theorem MD_initPos_count_centred_witness:
  "1 \<le> Nc unit_cell \<and> length (X unit_cell) = nat (4 * Nc unit_cell ^ 3) \<and>
   NumAtom (MD_initPos unit_cell) = 4 \<and>
   (\<Sum>n\<leftarrow>[0..<nat (NumAtom (MD_initPos unit_cell))]. X (MD_initPos unit_cell) ! n)
      / real_of_int (NumAtom (MD_initPos unit_cell)) = 0 \<and>
   (\<Sum>n\<leftarrow>[0..<nat (NumAtom (MD_initPos unit_cell))]. Y (MD_initPos unit_cell) ! n)
      / real_of_int (NumAtom (MD_initPos unit_cell)) = 0 \<and>
   (\<Sum>n\<leftarrow>[0..<nat (NumAtom (MD_initPos unit_cell))]. Z (MD_initPos unit_cell) ! n)
      / real_of_int (NumAtom (MD_initPos unit_cell)) = 0"
proof -
  have h1: "1 \<le> Nc unit_cell"
    and h2: "length (X unit_cell) = nat (4 * Nc unit_cell ^ 3)"
    and h3: "length (Y unit_cell) = nat (4 * Nc unit_cell ^ 3)"
    and h4: "length (Z unit_cell) = nat (4 * Nc unit_cell ^ 3)"
    by simp_all
  have "NumAtom (MD_initPos unit_cell) = 4"
    by simp
  with MD_initPos_count_centred [OF h1 h2 h3 h4] h1 h2 show ?thesis
    by blast
qed

theorem MD_initVel_zero_momentum_witness:
  "1 \<le> Nc unit_cell \<and> NumAtom unit_cell = 4 * Nc unit_cell ^ 3 \<and>
   length (atoms unit_cell) = nat (NumAtom unit_cell) \<and>
   vsum (map (\<lambda>n. v (atoms (MD_initVel ones unit_cell) ! n)) [0..<nat (NumAtom unit_cell)])
     = Zero \<and>
   norm4 (vscale (sqrt (3 * Tg unit_cell)) (direction ones 0)) = sqrt (3 * Tg unit_cell)"
proof -
  have h1: "1 \<le> Nc unit_cell"
    and h2: "NumAtom unit_cell = 4 * Nc unit_cell ^ 3"
    and h3: "length (atoms unit_cell) = nat (NumAtom unit_cell)"
    by simp_all
  have h4: "0 \<le> Tg unit_cell \<and>
    (ones (3 * 0) \<noteq> 0 \<or> ones (3 * 0 + 1) \<noteq> 0 \<or> ones (3 * 0 + 2) \<noteq> 0)"
    by (simp add: ones_def)
  have h5: "(0::nat) < nat (NumAtom unit_cell)"
    by simp
  from MD_initVel_zero_momentum [OF h1 h2 h3, of ones] h1 h2 h3 h4 h5 show ?thesis
    by blast
qed

lemma sized_unit_cell: "sized unit_cell"
  by (simp add: sized_def parallel_arrays_def unit_cell_def)

theorem setters_reinitialise_witness:
  "(0::int) \<le> 3 \<and> 4 * (3::int) ^ 3 < 2 ^ 31 \<and> sized unit_cell \<and>
   (\<exists>st'. setNc ones 3 unit_cell = Inr st' \<and> MD_iter st' = 1 \<and> t st' = 0 \<and>
          Nc st' = 3 \<and> NumAtom st' = 4 * 3 ^ 3 \<and> sized st') \<and>
   (\<exists>st'. setNc ones 3 unit_cell = Inr st' \<and> NumAtom st' = 108 \<and> MD_iter st' = 1) \<and>
   MD_iter (setEnsemble ones NVE unit_cell) = 1 \<and> t (setEnsemble ones NVE unit_cell) = 0 \<and>
   ensemble (setEnsemble ones NVE unit_cell) = NVE \<and> sized (setEnsemble ones NVE unit_cell) \<and>
   MD_iter (setScale ones 1 unit_cell) = 1 \<and> t (setScale ones 1 unit_cell) = 0 \<and>
   scale (setScale ones 1 unit_cell) = 1 \<and> sized (setScale ones 1 unit_cell) \<and>
   MD_iter (setTgiven 50 unit_cell) = 2 \<and> Tg (setTgiven 50 unit_cell) = 50 * KB / YPSILON"
proof -
  have h1: "(0::int) \<le> 3" and h2: "4 * (3::int) ^ 3 < 2 ^ 31"
    by simp_all
  note T = setters_reinitialise [OF h1 h2, of unit_cell ones NVE 1 50]
  have m: "MD_iter unit_cell = 2"
    by simp
  from T sized_unit_cell h1 h2 m show ?thesis
    by (elim conjE impE) (simp_all)
qed

lemma MD_initPos_unit_cell:
  "X (MD_initPos unit_cell) = [- 1 / 2, 1 / 2, - 1 / 2, 1 / 2]"
  "Y (MD_initPos unit_cell) = [- 1 / 2, 1 / 2, 1 / 2, - 1 / 2]"
  "Z (MD_initPos unit_cell) = [- 1 / 2, - 1 / 2, 1 / 2, 1 / 2]"
  by (simp_all add: MD_initPos_def MD_initPos_place_def MD_initPos_cell_def
      MD_initPos_sum_def MD_initPos_shift_def Let_def unit_cell_def upt_rec_numeral)

subsection \<open>The integrator\<close>

lemma fold_local:
  assumes loc: "\<And>n st k. I st \<Longrightarrow> k < length (atoms st) \<Longrightarrow>
      particle (body n st) k = (if k = n then g (particle st n) else particle st k)"
    and wf: "\<And>n st. I st \<Longrightarrow>
      I (body n st) \<and> length (atoms (body n st)) = length (atoms st)"
    and "I st" and "k < length (atoms st)"
  shows "particle (fold body [0..<N] st) k = (if k < N then g (particle st k) else particle st k)"
proof -
  have "I (fold body [0..<N] st) \<and>
        length (atoms (fold body [0..<N] st)) = length (atoms st) \<and>
        (\<forall>k<length (atoms st). particle (fold body [0..<N] st) k
            = (if k < N then g (particle st k) else particle st k))"
  proof (induction N)
    case 0
    show ?case using assms(3) by simp
  next
    case (Suc N)
    let ?st = "fold body [0..<N] st"
    from Suc.IH have sl: "I ?st" and len: "length (atoms ?st) = length (atoms st)"
      and ih: "\<And>k. k < length (atoms st) \<Longrightarrow>
          particle ?st k = (if k < N then g (particle st k) else particle st k)"
      by simp_all
    have step: "fold body [0..<Suc N] st = body N ?st"
      by simp
    show ?case
      unfolding step
    proof (intro conjI allI impI)
      show "I (body N ?st)"
        using wf [OF sl] by simp
      show "length (atoms (body N ?st)) = length (atoms st)"
        using wf [OF sl] len by simp
      fix k assume k: "k < length (atoms st)"
      then have "particle (body N ?st) k = (if k = N then g (particle ?st N) else particle ?st k)"
        using loc [OF sl, of k N] len by simp
      then show "particle (body N ?st) k
                   = (if k < Suc N then g (particle st k) else particle st k)"
        using ih [OF k] by (auto simp: less_Suc_eq)
    qed
  qed
  with assms(4) show ?thesis by simp
qed

lemma moveAtoms_euler_local:
  assumes "same_lengths st" and "k < length (atoms st)"
  shows "particle (moveAtoms_euler s n st) k
           = (if k = n then euler_particle s (particle st n) else particle st k)"
  using assms
  by (simp add: moveAtoms_euler_def Let_def particle_def euler_particle_def same_lengths_def
      nth_list_update)

lemma moveAtoms_euler_wf:
  assumes "same_lengths st"
  shows "same_lengths (moveAtoms_euler s n st) \<and>
         length (atoms (moveAtoms_euler s n st)) = length (atoms st)"
  using assms by (simp add: same_lengths_def)

lemma moveAtoms_verlet_local:
  assumes "same_lengths st" and "k < length (atoms st)"
  shows "particle (moveAtoms_verlet s n st) k
           = (if k = n then verlet_particle (ensemble st) s (particle st n) else particle st k)"
  using assms
  by (cases "ensemble st")
     (simp_all add: moveAtoms_verlet_def Let_def particle_def verlet_particle_def
        verlet_coordinate_def same_lengths_def nth_list_update)

lemma moveAtoms_verlet_wf:
  assumes "same_lengths st"
  shows "same_lengths (moveAtoms_verlet s n st) \<and>
         length (atoms (moveAtoms_verlet s n st)) = length (atoms st)"
  using assms by (simp add: same_lengths_def)

lemma fold_moveAtoms_euler:
  assumes "same_lengths st" and "k < length (atoms st)"
  shows "particle (fold (moveAtoms_euler s) [0..<N] st) k
           = (if k < N then euler_particle s (particle st k) else particle st k)"
  using assms(1) assms(2)
  by (rule fold_local [where I = same_lengths, rotated 2])
     (simp_all add: moveAtoms_euler_local moveAtoms_euler_wf)

lemma fold_moveAtoms_verlet:
  assumes "same_lengths st" and "k < length (atoms st)"
  shows "particle (fold (moveAtoms_verlet s) [0..<N] st) k
           = (if k < N then verlet_particle (ensemble st) s (particle st k) else particle st k)"
proof -
  have "same_lengths st \<and> ensemble st = ensemble st"
    using assms(1) by simp
  then show ?thesis
    using assms(2)
    by (rule fold_local [where I = "\<lambda>s. same_lengths s \<and> ensemble s = ensemble st", rotated 2])
       (auto simp: moveAtoms_verlet_local moveAtoms_verlet_wf)
qed

lemma fold_squaredNorm:
  "fold (\<lambda>n u. u + squaredNorm (v (as ! n))) ns a = a + (\<Sum>n\<leftarrow>ns. squaredNorm (v (as ! n)))"
  by (induction ns arbitrary: a) simp_all

text \<open>The state in which \<open>moveAtoms\<close> runs one of its two loops.\<close>

lemma moveAtoms_scale_eq:
  "moveAtoms_scale st =
     (st\<lparr>Uk := kinetic st, Utot := kinetic st + Up st, Tc := temperature st\<rparr>, thermostat st)"
  by (simp add: moveAtoms_scale_def Let_def fold_squaredNorm kinetic_def temperature_def
      thermostat_def)

lemma moveAtoms_eq:
  "moveAtoms st =
     (if MD_iter st = 1
      then fold (moveAtoms_euler (thermostat st)) [0..<nat (NumAtom st)]
             (st\<lparr>Uk := kinetic st, Utot := kinetic st + Up st, Tc := temperature st\<rparr>)
      else fold (moveAtoms_verlet (thermostat st)) [0..<nat (NumAtom st)]
             (st\<lparr>Uk := kinetic st, Utot := kinetic st + Up st, Tc := temperature st\<rparr>))"
  by (simp add: moveAtoms_def moveAtoms_scale_eq)

lemma moveAtoms_energies [simp]:
  "Uk (moveAtoms st) = kinetic st"
  "Tc (moveAtoms st) = temperature st"
  by (simp_all add: moveAtoms_eq fold_moveAtoms_euler_frame fold_moveAtoms_verlet_frame)

lemma moveAtoms_particle:
  assumes "parallel_arrays st" and "n < nat (NumAtom st)"
  shows "particle (moveAtoms st) n =
     (if MD_iter st = 1 then euler_particle (thermostat st) (particle st n)
      else verlet_particle (ensemble st) (thermostat st) (particle st n))"
proof -
  let ?st = "st\<lparr>Uk := kinetic st, Utot := kinetic st + Up st, Tc := temperature st\<rparr>"
  have sl: "same_lengths ?st" and n: "n < length (atoms ?st)"
    using assms by (simp_all add: same_lengths_def parallel_arrays_def)
  have p: "particle ?st n = particle st n"
    by (simp add: particle_def)
  show ?thesis
    using assms(2) fold_moveAtoms_euler [OF sl n, of "thermostat st" "nat (NumAtom st)"]
      fold_moveAtoms_verlet [OF sl n, of "thermostat st" "nat (NumAtom st)"]
    by (simp add: moveAtoms_eq p)
qed

text \<open>
  Claim C2. \<open>moveAtoms\<close> on \<open>MD_iter\<close>, for every atom \<open>n\<close>, with the factor
  \<open>s = sqrt ((Tg + 0.2 * (Tc - Tg)) / Tc)\<close> of the temperature \<open>Tc\<close> that the call computes.
  When \<open>MD_iter = 1\<close>: \<open>r1\<close> becomes the old position, the velocity is multiplied by \<open>s\<close>,
  the position grows by \<open>DT * velocity + 0.5 * dt2 * force\<close> and the velocity by
  \<open>DT * force\<close>. Otherwise (in particular when \<open>MD_iter > 1\<close>): the new position is
  \<open>2 * position - r1 + force * dt2\<close> for \<open>NVE\<close> and
  \<open>position + s * (position - r1) + force * dt2\<close> for \<open>NVT\<close>, the velocity becomes
  \<open>0.5 * (new position - r1) / DT\<close> with the stored \<open>r1\<close>, and \<open>r1\<close> becomes the old position.
\<close>

theorem moveAtoms_state_machine:
  assumes "parallel_arrays st" and "n < nat (NumAtom st)"
  shows
    "let s = sqrt ((Tg st + 0.2 * (Tc (moveAtoms st) - Tg st)) / Tc (moveAtoms st));
         a = atoms st ! n; x = X st ! n; y = Y st ! n; z = Z st ! n;
         a' = atoms (moveAtoms st) ! n;
         x' = X (moveAtoms st) ! n; y' = Y (moveAtoms st) ! n; z' = Z (moveAtoms st) ! n
     in (MD_iter st = 1 \<longrightarrow>
           r1 a' = \<lparr>c0 = x, c1 = y, c2 = z, c3 = 0\<rparr> \<and>
           x' = x + (DT * c0 (vscale s (v a)) + 0.5 * dt2 * c0 (f a)) \<and>
           y' = y + (DT * c1 (vscale s (v a)) + 0.5 * dt2 * c1 (f a)) \<and>
           z' = z + (DT * c2 (vscale s (v a)) + 0.5 * dt2 * c2 (f a)) \<and>
           v a' = vadd (vscale s (v a)) (vscale DT (f a))) \<and>
        (MD_iter st \<noteq> 1 \<and> ensemble st = NVE \<longrightarrow>
           x' = 2 * x - c0 (r1 a) + c0 (f a) * dt2 \<and>
           y' = 2 * y - c1 (r1 a) + c1 (f a) * dt2 \<and>
           z' = 2 * z - c2 (r1 a) + c2 (f a) * dt2) \<and>
        (MD_iter st \<noteq> 1 \<and> ensemble st = NVT \<longrightarrow>
           x' = x + (s * (x - c0 (r1 a)) + c0 (f a) * dt2) \<and>
           y' = y + (s * (y - c1 (r1 a)) + c1 (f a) * dt2) \<and>
           z' = z + (s * (z - c2 (r1 a)) + c2 (f a) * dt2)) \<and>
        (MD_iter st \<noteq> 1 \<longrightarrow>
           v a' = \<lparr>c0 = 0.5 * (x' - c0 (r1 a)) / DT, c1 = 0.5 * (y' - c1 (r1 a)) / DT,
                   c2 = 0.5 * (z' - c2 (r1 a)) / DT, c3 = 0\<rparr> \<and>
           r1 a' = \<lparr>c0 = x, c1 = y, c2 = z, c3 = 0\<rparr>) \<and>
        f a' = f a"
proof -
  have s: "sqrt ((Tg st + 0.2 * (Tc (moveAtoms st) - Tg st)) / Tc (moveAtoms st)) = thermostat st"
    by (simp add: thermostat_def ALPHA_def)
  have p: "(X (moveAtoms st) ! n, Y (moveAtoms st) ! n, Z (moveAtoms st) ! n,
            atoms (moveAtoms st) ! n) =
     (if MD_iter st = 1
      then euler_particle (thermostat st) (X st ! n, Y st ! n, Z st ! n, atoms st ! n)
      else verlet_particle (ensemble st) (thermostat st)
             (X st ! n, Y st ! n, Z st ! n, atoms st ! n))"
    using moveAtoms_particle [OF assms] by (simp add: particle_def)
  show ?thesis
  proof (cases "MD_iter st = 1")
    case True
    with p show ?thesis
      unfolding Let_def s by (simp add: euler_particle_def)
  next
    case False
    with p show ?thesis
      unfolding Let_def s
      by (cases "ensemble st") (simp_all add: verlet_particle_def verlet_coordinate_def)
  qed
qed

text \<open>
  Claim C10. The statements of \<open>moveAtoms\<close> before the switch do not look at the ensemble
  or at \<open>MD_iter\<close>: in every call \<open>s\<close> is the root of a quotient with the divisor \<open>Tc\<close>,
  the temperature just computed from the kinetic energy \<open>Uk\<close>. When \<open>Uk = 0\<close> the divisor
  is \<open>0\<close>, and for \<open>Tg \<noteq> 0\<close> no real number is the quotient. In the first step
  (\<open>MD_iter = 1\<close>) the velocity of every atom is multiplied by \<open>s\<close> in either ensemble,
  \<open>NVE\<close> included.
\<close>

theorem moveAtoms_scale_unguarded:
  "(let st' = fst (moveAtoms_scale st); s = snd (moveAtoms_scale st)
    in Uk st' = (\<Sum>n\<leftarrow>[0..<nat (NumAtom st)]. squaredNorm (v (atoms st ! n))) * 0.5 \<and>
       Tc st' = Uk st' / (1.5 * real_of_int (NumAtom st)) \<and>
       s = sqrt ((Tg st + ALPHA * (Tc st' - Tg st)) / Tc st') \<and>
       moveAtoms st = (if MD_iter st = 1
                       then fold (moveAtoms_euler s) [0..<nat (NumAtom st)] st'
                       else fold (moveAtoms_verlet s) [0..<nat (NumAtom st)] st') \<and>
       (Uk st' = 0 \<longrightarrow> Tc st' = 0) \<and>
       (Uk st' = 0 \<and> Tg st \<noteq> 0 \<longrightarrow>
          \<not> (\<exists>q. q * Tc st' = Tg st + ALPHA * (Tc st' - Tg st))) \<and>
       (parallel_arrays st \<and> n < nat (NumAtom st) \<and> MD_iter st = 1 \<longrightarrow>
          v (atoms (moveAtoms st) ! n)
            = vadd (vscale s (v (atoms st ! n))) (vscale DT (f (atoms st ! n)))))"
proof -
  have boot: "v (atoms (moveAtoms st) ! n)
      = vadd (vscale (thermostat st) (v (atoms st ! n))) (vscale DT (f (atoms st ! n)))"
    if "parallel_arrays st" "n < nat (NumAtom st)" "MD_iter st = 1"
    using moveAtoms_particle [OF that(1,2)] that(3)
    by (simp add: particle_def euler_particle_def)
  have undef: "\<not> (\<exists>q. q * temperature st = Tg st + ALPHA * (temperature st - Tg st))"
    if "kinetic st = 0" "Tg st \<noteq> 0"
    using that by (simp add: temperature_def ALPHA_def)
  show ?thesis
    unfolding Let_def moveAtoms_scale_eq fst_conv snd_conv
    using boot undef
    by (simp add: moveAtoms_eq) (simp add: kinetic_def temperature_def thermostat_def)
qed

lemma upt_4: "[0..<4] = [0, 1, 2, 3]"
  by (simp add: numeral_eq_Suc upt_rec)

lemma moving_cell_fields [simp]:
  "parallel_arrays moving_cell" "NumAtom moving_cell = 4" "MD_iter moving_cell = 2"
  "ensemble moving_cell = NVT" "Tg moving_cell = 1"
  "atoms moving_cell ! 0 = moving_atom" "X moving_cell ! 0 = 0"
  "Y moving_cell ! 0 = 0" "Z moving_cell ! 0 = 0"
  "parallel_arrays boot_cell" "NumAtom boot_cell = 4" "MD_iter boot_cell = 1"
  "ensemble boot_cell = NVE" "Tg boot_cell = 1"
  "atoms boot_cell ! 0 = moving_atom" "X boot_cell ! 0 = 0"
  "Y boot_cell ! 0 = 0" "Z boot_cell ! 0 = 0"
  "parallel_arrays still_cell" "NumAtom still_cell = 4" "MD_iter still_cell = 1"
  "ensemble still_cell = NVE" "Tg still_cell = 1"
  by (simp_all add: moving_cell_def boot_cell_def still_cell_def unit_cell_def
      parallel_arrays_def)

lemma moving_cell_temperature [simp]:
  "temperature moving_cell = 1" "temperature boot_cell = 1" "temperature still_cell = 0"
  by (simp_all add: temperature_def kinetic_def moving_cell_def boot_cell_def still_cell_def
      unit_cell_def moving_atom_def Atom_init_def squaredNorm_def upt_4)

theorem moveAtoms_state_machine_witness:
  "parallel_arrays boot_cell \<and> (0::nat) < nat (NumAtom boot_cell) \<and> MD_iter boot_cell = 1 \<and>
   X (moveAtoms boot_cell) ! 0 = 1001 / 1000000 \<and>
   v (atoms (moveAtoms boot_cell) ! 0) = \<lparr>c0 = 1002 / 1000, c1 = 1, c2 = 1, c3 = 0\<rparr> \<and>
   r1 (atoms (moveAtoms boot_cell) ! 0) = \<lparr>c0 = 0, c1 = 0, c2 = 0, c3 = 0\<rparr> \<and>
   parallel_arrays moving_cell \<and> (0::nat) < nat (NumAtom moving_cell) \<and>
   MD_iter moving_cell = 2 \<and> ensemble moving_cell = NVT \<and>
   X (moveAtoms moving_cell) ! 0 = 1000002 / 1000000 \<and>
   v (atoms (moveAtoms moving_cell) ! 0) = \<lparr>c0 = 1000001 / 1000, c1 = 0, c2 = 0, c3 = 0\<rparr>"
proof -
  have b1: "parallel_arrays boot_cell" and b2: "(0::nat) < nat (NumAtom boot_cell)"
    and m1: "parallel_arrays moving_cell" and m2: "(0::nat) < nat (NumAtom moving_cell)"
    by simp_all
  show ?thesis
    using moveAtoms_state_machine [OF b1 b2] moveAtoms_state_machine [OF m1 m2]
    by (simp add: Let_def moving_atom_def vadd_def vscale_def DT_def dt2_def)
qed

theorem moveAtoms_scale_unguarded_witness:
  "ensemble still_cell = NVE \<and> Uk (fst (moveAtoms_scale still_cell)) = 0 \<and>
   Tc (fst (moveAtoms_scale still_cell)) = 0 \<and> Tg still_cell = 1 \<and>
   \<not> (\<exists>q. q * Tc (fst (moveAtoms_scale still_cell))
           = Tg still_cell + ALPHA * (Tc (fst (moveAtoms_scale still_cell)) - Tg still_cell)) \<and>
   parallel_arrays boot_cell \<and> (0::nat) < nat (NumAtom boot_cell) \<and>
   MD_iter boot_cell = 1 \<and> ensemble boot_cell = NVE \<and>
   snd (moveAtoms_scale boot_cell) = 1 \<and>
   v (atoms (moveAtoms boot_cell) ! 0) = \<lparr>c0 = 1002 / 1000, c1 = 1, c2 = 1, c3 = 0\<rparr>"
proof -
  note still = moveAtoms_scale_unguarded [of still_cell 0, unfolded Let_def]
  note boot = moveAtoms_scale_unguarded [of boot_cell 0, unfolded Let_def]
  have u: "Uk (fst (moveAtoms_scale still_cell)) = 0"
    by (simp add: moveAtoms_scale_eq kinetic_def still_cell_def unit_cell_def Atom_init_def
        squaredNorm_def upt_4)
  have g: "Tg still_cell \<noteq> 0"
    by simp
  from still u have a: "Tc (fst (moveAtoms_scale still_cell)) = 0"
    by blast
  from still u g have b: "\<not> (\<exists>q. q * Tc (fst (moveAtoms_scale still_cell))
           = Tg still_cell + ALPHA * (Tc (fst (moveAtoms_scale still_cell)) - Tg still_cell))"
    by blast
  have s: "snd (moveAtoms_scale boot_cell) = 1"
    by (simp add: moveAtoms_scale_eq thermostat_def)
  have h: "parallel_arrays boot_cell \<and> (0::nat) < nat (NumAtom boot_cell) \<and> MD_iter boot_cell = 1"
    by simp
  with boot have "v (atoms (moveAtoms boot_cell) ! 0)
      = vadd (vscale (snd (moveAtoms_scale boot_cell)) (v (atoms boot_cell ! 0)))
          (vscale DT (f (atoms boot_cell ! 0)))"
    by blast
  then have c: "v (atoms (moveAtoms boot_cell) ! 0) = \<lparr>c0 = 1002 / 1000, c1 = 1, c2 = 1, c3 = 0\<rparr>"
    unfolding s by (simp add: moving_atom_def vadd_def vscale_def DT_def)
  from u a b c s show ?thesis
    by simp
qed

subsection \<open>The force evaluation: one pair\<close>

lemma dist2_nonneg [simp]: "0 \<le> dist2 st n m i j k"
  by (simp add: dist2_def displacement_def)

lemma rc2_eq: "rc2 = rc ^ 2"
  by (simp add: rc2_def power2_eq_square)

lemma odd_powers:
  "(a::real) ^ 13 = (a ^ 2) ^ 6 * a" "a ^ 7 = (a ^ 2) ^ 3 * a"
  "a ^ 12 = (a ^ 2) ^ 6" "a ^ 6 = (a ^ 2) ^ 3"
  by (simp_all add: eval_nat_numeral)

lemma sqrt_powers:
  assumes "0 \<le> r2"
  shows "sqrt r2 ^ 13 = r2 ^ 6 * sqrt r2" "sqrt r2 ^ 7 = r2 ^ 3 * sqrt r2"
    "sqrt r2 ^ 12 = r2 ^ 6" "sqrt r2 ^ 6 = r2 ^ 3"
proof -
  have sq: "sqrt r2 ^ 2 = r2"
    using assms by simp
  show "sqrt r2 ^ 13 = r2 ^ 6 * sqrt r2" "sqrt r2 ^ 7 = r2 ^ 3 * sqrt r2"
    "sqrt r2 ^ 12 = r2 ^ 6" "sqrt r2 ^ 6 = r2 ^ 3"
    using odd_powers [of "sqrt r2"] by (simp_all only: sq)
qed

lemma LJ_Fr_code:
  assumes "0 \<le> r2"
  shows "48 * (1 / (r2 * r2 * r2) * (1 / (r2 * r2 * r2)) / sqrt r2)
           - 24 * (1 / (r2 * r2 * r2) / sqrt r2) = LJ_Fr (sqrt r2)"
  unfolding LJ_Fr_def sqrt_powers [OF assms]
  by (simp add: eval_nat_numeral)

lemma LJ_energy_code:
  assumes "0 \<le> r2"
  shows "1 / (r2 * r2 * r2) * (1 / (r2 * r2 * r2)) - 1 / (r2 * r2 * r2)
           = 1 / sqrt r2 ^ 12 - 1 / sqrt r2 ^ 6"
  unfolding sqrt_powers [OF assms]
  by (simp add: eval_nat_numeral)

lemma add_contrib_nothing [simp]: "add_contrib n Zero 0 0 acc = acc"
  by (cases acc) (simp add: add_contrib_def)

lemma calcForces_pair_eq:
  "calcForces_pair st n m i j k acc
     = add_contrib n (pair_force st n m i j k) (pair_energy st n m i j k)
         (pair_virial st n m i j k) acc"
proof (cases "interacts st n m i j k")
  case False
  then show ?thesis
    by (auto simp: calcForces_pair_def pair_force_def pair_energy_def pair_virial_def
        interacts_def dist2_def displacement_def rc2_eq Let_def)
next
  case True
  obtain as up vir where acc: "acc = (as, up, vir)"
    by (cases acc)
  obtain dx dy dz where d: "displacement st n m i j k = (dx, dy, dz)"
    by (cases "displacement st n m i j k")
  let ?r2 = "dx * dx + dy * dy + dz * dz"
  have r2: "dist2 st n m i j k = ?r2"
    by (simp add: dist2_def d)
  have pos: "0 \<le> ?r2"
    by simp
  from True have c: "n \<noteq> m \<or> i \<noteq> 0 \<or> j \<noteq> 0 \<or> k \<noteq> 0" and le: "?r2 \<le> rc2"
    by (auto simp: interacts_def r2 rc2_eq)
  have code: "calcForces_pair st n m i j k acc =
    (let r = sqrt ?r2;
         rm6 = 1 / (?r2 * ?r2 * ?r2);
         Fr = 48 * (rm6 * rm6 / r) - 24 * (rm6 / r)
     in (as[n := (as ! n)\<lparr>f := vadd (f (as ! n))
               \<lparr>c0 = dx / r * Fr, c1 = dy / r * Fr, c2 = dz / r * Fr, c3 = 0\<rparr>\<rparr>],
         up + 0.5 * (4 * (rm6 * rm6 - rm6) - Vrc),
         vir + 0.5 * r * Fr))"
    using c le d unfolding calcForces_pair_def acc displacement_def Let_def
    by (simp del: times_divide_eq_left times_divide_eq_right divide_divide_eq_left)
  show ?thesis
    unfolding code Let_def
    using True LJ_Fr_code [OF pos] LJ_energy_code [OF pos]
    by (simp add: add_contrib_def acc pair_force_def pair_energy_def pair_virial_def d r2
        Let_def del: times_divide_eq_left times_divide_eq_right divide_divide_eq_left)
qed

subsection \<open>The force evaluation: the loops\<close>

lemma vsum_Nil [simp]: "vsum [] = Zero"
  by (simp add: vsum_def)

lemma vsum_Cons [simp]: "vsum (u # us) = vadd u (vsum us)"
  by (rule Vector4d_eqI) simp_all

lemma vsum_append [simp]: "vsum (us @ ws) = vadd (vsum us) (vsum ws)"
  by (rule Vector4d_eqI) simp_all

lemma vsum_concat: "vsum (concat uss) = vsum (map vsum uss)"
  by (induction uss) simp_all

lemma sum_list_concat_real: "sum_list (concat xss) = sum_list (map sum_list xss :: real list)"
  by (induction xss) simp_all

lemma vadd_assoc: "vadd (vadd a b) c = vadd a (vadd b c)"
  by (rule Vector4d_eqI) simp_all

lemma add_contrib_twice:
  "add_contrib n F' U' W' (add_contrib n F U W acc)
     = add_contrib n (vadd F F') (U + U') (W + W') acc"
proof -
  obtain as up vir where acc: "acc = (as, up, vir)"
    by (cases acc)
  show ?thesis
  proof (cases "n < length as")
    case True
    then show ?thesis
      by (simp add: add_contrib_def acc vadd_assoc)
  next
    case False
    then show ?thesis
      by (simp add: add_contrib_def acc list_update_beyond)
  qed
qed

lemma fold_add_contrib:
  "fold (\<lambda>x. add_contrib n (F x) (U x) (W x)) xs acc
     = add_contrib n (vsum (map F xs)) (sum_list (map U xs)) (sum_list (map W xs)) acc"
proof (induction xs arbitrary: acc)
  case Nil
  show ?case by simp
next
  case (Cons x xs)
  show ?case
    by (simp add: Cons.IH add_contrib_twice)
qed

text \<open>All partners of the atom \<open>n\<close>: every atom in every image box.\<close>

lemma calcForces_atom:
  "fold (\<lambda>m. fold (\<lambda>i. fold (\<lambda>j. fold (\<lambda>k. calcForces_pair st n m i j k) ks) js) is) ms acc
     = add_contrib n
         (vsum [pair_force st n m i j k. m \<leftarrow> ms, i \<leftarrow> is, j \<leftarrow> js, k \<leftarrow> ks])
         (sum_list [pair_energy st n m i j k. m \<leftarrow> ms, i \<leftarrow> is, j \<leftarrow> js, k \<leftarrow> ks])
         (sum_list [pair_virial st n m i j k. m \<leftarrow> ms, i \<leftarrow> is, j \<leftarrow> js, k \<leftarrow> ks])
         acc"
proof -
  have 1: "fold (\<lambda>k. calcForces_pair st n m i j k) ks
             = add_contrib n (vsum (map (pair_force st n m i j) ks))
                 (sum_list (map (pair_energy st n m i j) ks))
                 (sum_list (map (pair_virial st n m i j) ks))" for m i j
    by (rule ext) (simp add: calcForces_pair_eq [abs_def] fold_add_contrib)
  have 2: "fold (\<lambda>j. fold (\<lambda>k. calcForces_pair st n m i j k) ks) js
             = add_contrib n (vsum (map (\<lambda>j. vsum (map (pair_force st n m i j) ks)) js))
                 (sum_list (map (\<lambda>j. sum_list (map (pair_energy st n m i j) ks)) js))
                 (sum_list (map (\<lambda>j. sum_list (map (pair_virial st n m i j) ks)) js))" for m i
    by (rule ext) (simp only: 1 fold_add_contrib)
  have 3: "fold (\<lambda>i. fold (\<lambda>j. fold (\<lambda>k. calcForces_pair st n m i j k) ks) js) is
             = add_contrib n
                 (vsum (map (\<lambda>i. vsum (map (\<lambda>j. vsum (map (pair_force st n m i j) ks)) js)) is))
                 (sum_list (map (\<lambda>i. sum_list (map (\<lambda>j.
                    sum_list (map (pair_energy st n m i j) ks)) js)) is))
                 (sum_list (map (\<lambda>i. sum_list (map (\<lambda>j.
                    sum_list (map (pair_virial st n m i j) ks)) js)) is))" for m
    by (rule ext) (simp only: 2 fold_add_contrib)
  show ?thesis
    by (simp only: 3 fold_add_contrib)
       (simp add: vsum_concat sum_list_concat_real comp_def)
qed

lemma fold_add_contrib_atoms:
  "fold (\<lambda>n. add_contrib n (F n) (U n) (W n)) ns (as, up, vir)
     = (fold (\<lambda>n as. as[n := (as ! n)\<lparr>f := vadd (f (as ! n)) (F n)\<rparr>]) ns as,
        up + sum_list (map U ns), vir + sum_list (map W ns))"
  by (induction ns arbitrary: as up vir) (simp_all add: add_contrib_def algebra_simps)

lemma pair_frame:
  assumes "X st' = X st" "Y st' = Y st" "Z st' = Z st" "periodiclen st' = periodiclen st"
  shows "pair_force st' = pair_force st" "pair_energy st' = pair_energy st"
    "pair_virial st' = pair_virial st"
  using assms
  by (simp_all add: fun_eq_iff pair_force_def pair_energy_def pair_virial_def interacts_def
      dist2_def displacement_def)


lemma calcForces_eq:
  "calcForces st =
     st\<lparr>atoms := fold (\<lambda>n as. as[n := (as ! n)\<lparr>f := vadd (f (as ! n)) (force_sum st n)\<rparr>])
                    [0..<nat (NumAtom st)]
                    (fold (\<lambda>n as. as[n := (as ! n)\<lparr>f := Zero\<rparr>])
                       [0..<nat (NumAtom st)] (atoms st)),
        Up := sum_list (map (energy_sum st) [0..<nat (NumAtom st)]),
        virial := sum_list (map (virial_sum st) [0..<nat (NumAtom st)])\<rparr>"
proof -
  let ?N = "nat (NumAtom st)"
  let ?as = "fold (\<lambda>n as. as[n := (as ! n)\<lparr>f := Zero\<rparr>]) [0..<?N] (atoms st)"
  let ?st = "st\<lparr>atoms := ?as, Up := 0\<rparr>"
  have fr: "pair_force ?st = pair_force st" "pair_energy ?st = pair_energy st"
    "pair_virial ?st = pair_virial st"
    by (rule pair_frame; simp)+
  have inner: "(\<lambda>n. fold (\<lambda>m. fold (\<lambda>i. fold (\<lambda>j. fold (\<lambda>k. calcForces_pair ?st n m i j k)
                  [- ncp..ncp]) [- ncp..ncp]) [- ncp..ncp]) [0..<?N])
            = (\<lambda>n. add_contrib n (force_sum st n) (energy_sum st n) (virial_sum st n))"
    by (intro ext) (simp only: calcForces_atom fr force_sum_def energy_sum_def virial_sum_def)
  have "calcForces st =
    (case fold (\<lambda>n. fold (\<lambda>m. fold (\<lambda>i. fold (\<lambda>j. fold (\<lambda>k. calcForces_pair ?st n m i j k)
                  [- ncp..ncp]) [- ncp..ncp]) [- ncp..ncp]) [0..<?N]) [0..<?N] (?as, 0, 0)
     of (as, up, vir) \<Rightarrow> ?st\<lparr>atoms := as, Up := up, virial := vir\<rparr>)"
    by (simp add: calcForces_def Let_def)
  also have "\<dots> = st\<lparr>atoms := fold (\<lambda>n as. as[n := (as ! n)\<lparr>f := vadd (f (as ! n)) (force_sum st n)\<rparr>])
                    [0..<?N] ?as,
        Up := sum_list (map (energy_sum st) [0..<?N]),
        virial := sum_list (map (virial_sum st) [0..<?N])\<rparr>"
    unfolding inner fold_add_contrib_atoms by simp
  finally show ?thesis .
qed

lemma calcForces_force:
  assumes "length (atoms st) = nat (NumAtom st)" and "n < nat (NumAtom st)"
  shows "atoms (calcForces st) ! n = (atoms st ! n)\<lparr>f := force_sum st n\<rparr>"
  using assms
  by (simp add: calcForces_eq
      fold_update_nth [where g = "\<lambda>n a. a\<lparr>f := vadd (f a) (force_sum st n)\<rparr>"]
      fold_update_nth [where g = "\<lambda>n a. a\<lparr>f := Zero\<rparr>"])

text \<open>
  Claim C1. \<open>calcForces\<close> on a state with parallel arrays. The force of every atom \<open>n\<close>
  is the sum, over every atom \<open>m\<close> and every image shift \<open>(i, j, k)\<close> in \<open>[- ncp, ncp]^3\<close>,
  of \<open>(d / r) * Fr\<close> with \<open>Fr = 48 r^-13 - 24 r^-7\<close> for the pairs that interact: all but
  \<open>n = m\<close> with \<open>i = j = k = 0\<close>, and only those with \<open>|d|^2 \<le> rc^2\<close>. The old force does
  not enter (it is set to zero first), the other fields of the atom stay. The potential
  energy is the sum of \<open>0.5 * (4 * (r^-12 - r^-6) - Vrc)\<close> and the virial the sum of
  \<open>0.5 * r * Fr\<close> over the same pairs of all atoms \<open>n\<close>.
\<close>

theorem calcForces_pair_sums:
  assumes "parallel_arrays st"
  shows
    "(\<forall>n<nat (NumAtom st).
        atoms (calcForces st) ! n = (atoms st ! n)
          \<lparr>f := vsum [pair_force st n m i j k. m \<leftarrow> [0..<nat (NumAtom st)],
                       i \<leftarrow> [- ncp..ncp], j \<leftarrow> [- ncp..ncp], k \<leftarrow> [- ncp..ncp]]\<rparr>) \<and>
     Up (calcForces st) =
       sum_list [pair_energy st n m i j k. n \<leftarrow> [0..<nat (NumAtom st)],
                   m \<leftarrow> [0..<nat (NumAtom st)],
                   i \<leftarrow> [- ncp..ncp], j \<leftarrow> [- ncp..ncp], k \<leftarrow> [- ncp..ncp]] \<and>
     virial (calcForces st) =
       sum_list [pair_virial st n m i j k. n \<leftarrow> [0..<nat (NumAtom st)],
                   m \<leftarrow> [0..<nat (NumAtom st)],
                   i \<leftarrow> [- ncp..ncp], j \<leftarrow> [- ncp..ncp], k \<leftarrow> [- ncp..ncp]] \<and>
     ncp = 3 \<and>
     (\<forall>n m i j k.
        (interacts st n m i j k \<longleftrightarrow>
           \<not> (n = m \<and> i = 0 \<and> j = 0 \<and> k = 0) \<and> dist2 st n m i j k \<le> rc ^ 2) \<and>
        (interacts st n m i j k \<longrightarrow>
           (let d = sqrt (dist2 st n m i j k); Fr = 48 / d ^ 13 - 24 / d ^ 7
            in pair_force st n m i j k =
                 \<lparr>c0 = fst (displacement st n m i j k) / d * Fr,
                  c1 = fst (snd (displacement st n m i j k)) / d * Fr,
                  c2 = snd (snd (displacement st n m i j k)) / d * Fr, c3 = 0\<rparr> \<and>
               pair_energy st n m i j k = 0.5 * (4 * (1 / d ^ 12 - 1 / d ^ 6) - Vrc) \<and>
               pair_virial st n m i j k = 0.5 * d * Fr)) \<and>
        (\<not> interacts st n m i j k \<longrightarrow>
           pair_force st n m i j k = Zero \<and> pair_energy st n m i j k = 0 \<and>
           pair_virial st n m i j k = 0))"
proof -
  let ?N = "nat (NumAtom st)"
  have A: "\<forall>n<?N. atoms (calcForces st) ! n = (atoms st ! n)
          \<lparr>f := vsum [pair_force st n m i j k. m \<leftarrow> [0..<?N],
                       i \<leftarrow> [- ncp..ncp], j \<leftarrow> [- ncp..ncp], k \<leftarrow> [- ncp..ncp]]\<rparr>"
  proof (intro allI impI)
    fix n assume "n < ?N"
    moreover from assms have "length (atoms st) = ?N"
      by (simp add: parallel_arrays_def)
    ultimately have "atoms (calcForces st) ! n = (atoms st ! n)\<lparr>f := force_sum st n\<rparr>"
      by (simp only: calcForces_force)
    then show "atoms (calcForces st) ! n = (atoms st ! n)
          \<lparr>f := vsum [pair_force st n m i j k. m \<leftarrow> [0..<?N],
                       i \<leftarrow> [- ncp..ncp], j \<leftarrow> [- ncp..ncp], k \<leftarrow> [- ncp..ncp]]\<rparr>"
      by (simp only: force_sum_def)
  qed
  have "Up (calcForces st) = sum_list (map (energy_sum st) [0..<?N])"
    by (simp add: calcForces_eq)
  also have "\<dots> = sum_list [pair_energy st n m i j k. n \<leftarrow> [0..<?N], m \<leftarrow> [0..<?N],
                   i \<leftarrow> [- ncp..ncp], j \<leftarrow> [- ncp..ncp], k \<leftarrow> [- ncp..ncp]]"
    by (simp only: energy_sum_def [abs_def] sum_list_concat_real map_map comp_def)
  finally have B: "Up (calcForces st) =
       sum_list [pair_energy st n m i j k. n \<leftarrow> [0..<?N], m \<leftarrow> [0..<?N],
                   i \<leftarrow> [- ncp..ncp], j \<leftarrow> [- ncp..ncp], k \<leftarrow> [- ncp..ncp]]" .
  have "virial (calcForces st) = sum_list (map (virial_sum st) [0..<?N])"
    by (simp add: calcForces_eq)
  also have "\<dots> = sum_list [pair_virial st n m i j k. n \<leftarrow> [0..<?N], m \<leftarrow> [0..<?N],
                   i \<leftarrow> [- ncp..ncp], j \<leftarrow> [- ncp..ncp], k \<leftarrow> [- ncp..ncp]]"
    by (simp only: virial_sum_def [abs_def] sum_list_concat_real map_map comp_def)
  finally have C: "virial (calcForces st) =
       sum_list [pair_virial st n m i j k. n \<leftarrow> [0..<?N], m \<leftarrow> [0..<?N],
                   i \<leftarrow> [- ncp..ncp], j \<leftarrow> [- ncp..ncp], k \<leftarrow> [- ncp..ncp]]" .
  have D: "ncp = 3"
    by (simp add: ncp_def)
  have E: "\<forall>n m i j k.
        (interacts st n m i j k \<longleftrightarrow>
           \<not> (n = m \<and> i = 0 \<and> j = 0 \<and> k = 0) \<and> dist2 st n m i j k \<le> rc ^ 2) \<and>
        (interacts st n m i j k \<longrightarrow>
           (let d = sqrt (dist2 st n m i j k); Fr = 48 / d ^ 13 - 24 / d ^ 7
            in pair_force st n m i j k =
                 \<lparr>c0 = fst (displacement st n m i j k) / d * Fr,
                  c1 = fst (snd (displacement st n m i j k)) / d * Fr,
                  c2 = snd (snd (displacement st n m i j k)) / d * Fr, c3 = 0\<rparr> \<and>
               pair_energy st n m i j k = 0.5 * (4 * (1 / d ^ 12 - 1 / d ^ 6) - Vrc) \<and>
               pair_virial st n m i j k = 0.5 * d * Fr)) \<and>
        (\<not> interacts st n m i j k \<longrightarrow>
           pair_force st n m i j k = Zero \<and> pair_energy st n m i j k = 0 \<and>
           pair_virial st n m i j k = 0)"
    by (simp add: pair_force_def pair_energy_def pair_virial_def LJ_Fr_def Let_def
        split: prod.split)
       (simp add: interacts_def)
  from A B C D E show ?thesis
    by (intro conjI)
qed

text \<open>
  Claim C3. A pair further apart than \<open>rc\<close> changes nothing in \<open>calcForces\<close>: not the
  force, not the potential energy, not the virial. A pair exactly \<open>rc\<close> apart leaves the
  potential energy as it is, since \<open>Vrc = 4 * (rc^-12 - rc^-6)\<close> makes its shifted
  potential \<open>0.5 * (4 * (rc^-12 - rc^-6) - Vrc)\<close> zero.
\<close>

theorem cutoff_consistency:
  "Vrc = 4 * (1 / rc ^ 12 - 1 / rc ^ 6) \<and>
   0.5 * (4 * (1 / rc ^ 12 - 1 / rc ^ 6) - Vrc) = 0 \<and>
   (rc < sqrt (dist2 st n m i j k) \<longrightarrow> calcForces_pair st n m i j k acc = acc) \<and>
   (sqrt (dist2 st n m i j k) = rc \<longrightarrow>
      fst (snd (calcForces_pair st n m i j k acc)) = fst (snd acc))"
proof -
  have rc_pos: "0 < rc"
    by (simp add: rc_def)
  have "rc powr (- 12) = 1 / rc ^ 12" "rc powr (- 6) = 1 / rc ^ 6"
    using rc_pos by (simp_all add: powr_minus_divide)
  then have V: "Vrc = 4 * (1 / rc ^ 12 - 1 / rc ^ 6)"
    by (simp add: Vrc_def rcm12_def rcm6_def)
  have far: "calcForces_pair st n m i j k acc = acc" if "rc < sqrt (dist2 st n m i j k)"
  proof -
    from that rc_pos have "sqrt (rc ^ 2) < sqrt (dist2 st n m i j k)"
      by simp
    then have "rc ^ 2 < dist2 st n m i j k"
      by (simp only: real_sqrt_less_iff)
    then have "\<not> interacts st n m i j k"
      by (simp add: interacts_def)
    then show ?thesis
      by (simp add: calcForces_pair_eq pair_force_def pair_energy_def pair_virial_def)
  qed
  have at: "fst (snd (calcForces_pair st n m i j k acc)) = fst (snd acc)"
    if "sqrt (dist2 st n m i j k) = rc"
  proof -
    have "pair_energy st n m i j k = 0"
      by (simp add: pair_energy_def that V Let_def)
    then show ?thesis
      by (cases acc) (simp add: calcForces_pair_eq add_contrib_def)
  qed
  from V far at show ?thesis
    by simp
qed

lemma sqrt_25_4: "sqrt (25 / 4) = 5 / 2"
  using real_sqrt_abs [of "5 / 2"] by (simp add: power2_eq_square)

lemma sqrt_16: "sqrt 16 = 4"
  using real_sqrt_abs [of 4] by simp

lemma unit_cell_pair:
  "dist2 unit_cell 0 0 2 0 0 = 16" "dist2 cutoff_cell 0 0 1 0 0 = 25 / 4"
  "dist2 unit_cell 0 (Suc 0) 0 0 0 = 2" "displacement unit_cell 0 (Suc 0) 0 0 0 = (- 1, - 1, 0)"
  by (simp_all add: dist2_def displacement_def unit_cell_def cutoff_cell_def)

theorem cutoff_consistency_witness:
  "rc < sqrt (dist2 unit_cell 0 0 2 0 0) \<and>
   calcForces_pair unit_cell 0 0 2 0 0 (atoms unit_cell, 7, 9) = (atoms unit_cell, 7, 9) \<and>
   sqrt (dist2 cutoff_cell 0 0 1 0 0) = rc \<and>
   fst (snd (calcForces_pair cutoff_cell 0 0 1 0 0 (atoms cutoff_cell, 7, 9))) = 7"
proof -
  have far: "rc < sqrt (dist2 unit_cell 0 0 2 0 0)"
    by (simp add: unit_cell_pair sqrt_16 rc_def)
  have at: "sqrt (dist2 cutoff_cell 0 0 1 0 0) = rc"
    by (simp add: unit_cell_pair sqrt_25_4 rc_def)
  from cutoff_consistency [of unit_cell 0 0 2 0 0 "(atoms unit_cell, 7, 9)"] far
  have 1: "calcForces_pair unit_cell 0 0 2 0 0 (atoms unit_cell, 7, 9) = (atoms unit_cell, 7, 9)"
    by blast
  from cutoff_consistency [of cutoff_cell 0 0 1 0 0 "(atoms cutoff_cell, 7, 9)"] at
  have 2: "fst (snd (calcForces_pair cutoff_cell 0 0 1 0 0 (atoms cutoff_cell, 7, 9))) = 7"
    by simp
  from far at 1 2 show ?thesis
    by simp
qed

lemma pair_force_unit_cell:
  "interacts unit_cell 0 1 0 0 0"
  "pair_force unit_cell 0 1 0 0 0 = \<lparr>c0 = 9 / 8, c1 = 9 / 8, c2 = 0, c3 = 0\<rparr>"
proof -
  show i: "interacts unit_cell 0 1 0 0 0"
    by (simp add: interacts_def unit_cell_pair rc_def power2_eq_square)
  have p: "sqrt 2 ^ 13 = 64 * sqrt 2" "sqrt 2 ^ 7 = 8 * sqrt 2"
    using sqrt_powers [of 2] by simp_all
  have "- 1 / sqrt 2 * (48 / (64 * sqrt 2) - 24 / (8 * sqrt 2)) = 9 / 8"
    by (simp add: field_simps)
  with i show "pair_force unit_cell 0 1 0 0 0 = \<lparr>c0 = 9 / 8, c1 = 9 / 8, c2 = 0, c3 = 0\<rparr>"
    by (simp add: pair_force_def unit_cell_pair LJ_Fr_def p Let_def)
qed

theorem calcForces_pair_sums_witness:
  "parallel_arrays unit_cell \<and> (0::nat) < nat (NumAtom unit_cell) \<and>
   atoms (calcForces unit_cell) ! 0 = (atoms unit_cell ! 0)
     \<lparr>f := vsum [pair_force unit_cell 0 m i j k. m \<leftarrow> [0..<nat (NumAtom unit_cell)],
                  i \<leftarrow> [- ncp..ncp], j \<leftarrow> [- ncp..ncp], k \<leftarrow> [- ncp..ncp]]\<rparr> \<and>
   Up (calcForces unit_cell) =
     sum_list [pair_energy unit_cell n m i j k. n \<leftarrow> [0..<nat (NumAtom unit_cell)],
                 m \<leftarrow> [0..<nat (NumAtom unit_cell)],
                 i \<leftarrow> [- ncp..ncp], j \<leftarrow> [- ncp..ncp], k \<leftarrow> [- ncp..ncp]] \<and>
   interacts unit_cell 0 1 0 0 0 \<and>
   pair_force unit_cell 0 1 0 0 0 = \<lparr>c0 = 9 / 8, c1 = 9 / 8, c2 = 0, c3 = 0\<rparr> \<and>
   \<not> interacts unit_cell 0 0 0 0 0 \<and> pair_force unit_cell 0 0 0 0 0 = Zero"
proof -
  have h: "parallel_arrays unit_cell" and n: "(0::nat) < nat (NumAtom unit_cell)"
    by simp_all
  note T = calcForces_pair_sums [OF h]
  from T n have 1: "atoms (calcForces unit_cell) ! 0 = (atoms unit_cell ! 0)
     \<lparr>f := vsum [pair_force unit_cell 0 m i j k. m \<leftarrow> [0..<nat (NumAtom unit_cell)],
                  i \<leftarrow> [- ncp..ncp], j \<leftarrow> [- ncp..ncp], k \<leftarrow> [- ncp..ncp]]\<rparr>"
    by blast
  from T have 2: "Up (calcForces unit_cell) =
     sum_list [pair_energy unit_cell n m i j k. n \<leftarrow> [0..<nat (NumAtom unit_cell)],
                 m \<leftarrow> [0..<nat (NumAtom unit_cell)],
                 i \<leftarrow> [- ncp..ncp], j \<leftarrow> [- ncp..ncp], k \<leftarrow> [- ncp..ncp]]"
    by blast
  have 3: "\<not> interacts unit_cell 0 0 0 0 0"
    by (simp add: interacts_def)
  with T have 4: "pair_force unit_cell 0 0 0 0 0 = Zero"
    by blast
  from h n 1 2 3 4 pair_force_unit_cell show ?thesis
    by (intro conjI)
qed

subsection \<open>The arrays stay sized for the cell count\<close>

lemma Nc_calcForces [simp]: "Nc (calcForces st) = Nc st"
  by (simp add: calcForces_eq)

lemma length_atoms_calcForces [simp]: "length (atoms (calcForces st)) = length (atoms st)"
  by (simp add: calcForces_eq)

lemma Nc_moveAtoms [simp]: "Nc (moveAtoms st) = Nc st"
proof -
  have e: "Nc (fold (moveAtoms_euler s) ns a) = Nc a" for s ns a
    by (rule fold_frame [where g = Nc]) (simp add: moveAtoms_euler_def Let_def)
  have w: "Nc (fold (moveAtoms_verlet s) ns a) = Nc a" for s ns a
    by (rule fold_frame [where g = Nc])
       (simp add: moveAtoms_verlet_def Let_def split: EnsembleType.split)
  show ?thesis
    by (simp add: moveAtoms_eq e w)
qed

lemma Nc_periodic [simp]: "Nc (periodic st) = Nc st"
  unfolding periodic_def
  by (rule fold_frame [where g = Nc])
     (simp add: periodic_body_def periodic_X_def periodic_Y_def periodic_Z_def)

lemma sized_runCalc: "sized st \<Longrightarrow> sized (runCalc st)"
  by (simp add: sized_def parallel_arrays_def runCalc_def Let_def)

lemma sized_construct: "sized (construct mr raw)"
  using construct_frame(6) [of mr raw] by (simp add: sized_def)

lemma sized_setEnsemble: "sized st \<Longrightarrow> sized (setEnsemble mr e st)"
  using sized_recalc [of "st\<lparr>ensemble := e\<rparr>" mr]
  by (simp add: setEnsemble_def sized_def parallel_arrays_def)

lemma sized_setScale: "sized st \<Longrightarrow> sized (setScale mr a st)"
  using sized_recalc [of "st\<lparr>scale := a, lat := 2 powr (2 / 3) * a\<rparr>" mr]
  by (simp add: setScale_def ModLattice_eq sized_def parallel_arrays_def)

lemma sized_setTgiven: "sized st \<Longrightarrow> sized (setTgiven Tgiven st)"
  by (simp add: setTgiven_def sized_def parallel_arrays_def)

lemma sized_setNc:
  assumes "0 \<le> n" and "4 * n ^ 3 < 2 ^ 31" and "setNc mr n st = Inr st'"
  shows "sized st'"
proof -
  have "nat (n * n * n * 4) = nat (4 * int (nat n) ^ 3)" "4 * int (nat n) ^ 3 = 4 * n ^ 3"
    using assms(1) by (simp_all add: power3_eq_cube algebra_simps)
  with assms show ?thesis
    by (auto simp: setNc_eq ModLattice_eq sized_def parallel_arrays_def)
qed

text \<open>A \<^verbatim>\<open>setNc\<close> that throws leaves an object that is not sized: its cell count is
  negative, or the atoms of that count do not fit into 32 bits.\<close>

lemma setNc_throws_unsized:
  assumes "setNc mr n st = Inl (e, st')"
  shows "\<not> sized st'"
proof
  assume s: "sized st'"
  have nc: "Nc st' = n"
    using assms
    by (auto simp: setNc_def Let_def resize_def split: if_splits)
  from s nc have "0 \<le> n" and "4 * n ^ 3 < 2 ^ 31"
    by (simp_all add: sized_def)
  then have "setNc mr n st = Inr (ModLattice mr (resized n st))"
    by (rule setNc_eq)
  with assms show False
    by simp
qed

end
